theory Spec2Isabelle
  imports Main "HOL-Library.AList"
begin

section \<open>Python values and exceptions\<close>

text \<open>
  The values \<^verbatim>\<open>monday.py\<close> handles are what \<^verbatim>\<open>json.loads\<close> returns (None, booleans,
  integers, strings, lists, dictionaries keyed by strings) and references to instances
  of its own classes. A dictionary is an association list in insertion order with
  duplicate-free keys, as \<^verbatim>\<open>json.loads\<close> builds it. Characters are the code points
  below 256. Numbers that are not integers do not occur in the paths modelled.
\<close>

type_synonym ref = nat

datatype pyval =
    PNone
  | PBool bool
  | PInt int
  | PStr string
  | PList "pyval list"
  | PDict "(string \<times> pyval) list"
  | PObj ref

text \<open>
  An exception is a value. \<open>NoResponse\<close> is not a Python exception: it stands for a
  call to the transport that has no scripted answer left (see \<open>requests_post\<close>).
\<close>

datatype py_error =
    KeyError
  | IndexError
  | TypeError
  | AttributeError
  | ValueError
  | OverflowError
  | NoResponse

subsection \<open>Strings\<close>

text \<open>\<^verbatim>\<open>s.startswith(p)\<close>\<close>

fun startswith :: "string \<Rightarrow> string \<Rightarrow> bool" where
  "startswith s [] = True"
| "startswith [] (p # ps) = False"
| "startswith (c # cs) (p # ps) = (c = p \<and> startswith cs ps)"

text \<open>\<^verbatim>\<open>sub in s\<close> for two strings\<close>

fun str_contains :: "string \<Rightarrow> string \<Rightarrow> bool" where
  "str_contains sub [] = (sub = [])"
| "str_contains sub (c # cs) = (startswith (c # cs) sub \<or> str_contains sub cs)"

text \<open>
  \<^verbatim>\<open>s.split(sep)\<close>: the pieces of \<open>s\<close> between the occurrences of \<open>sep\<close>, found from
  the left and not overlapping; \<open>acc\<close> is the piece being read. An empty separator
  raises ValueError.
\<close>

function str_split_from :: "string \<Rightarrow> string \<Rightarrow> string \<Rightarrow> string list" where
  "str_split_from sep acc s =
     (if s = [] then [acc]
      else if sep \<noteq> [] \<and> startswith s sep
        then acc # str_split_from sep [] (drop (length sep) s)
      else str_split_from sep (acc @ [hd s]) (tl s))"
  by pat_completeness auto
termination
  by (relation "measure (\<lambda>(sep, acc, s). length s)") auto

definition str_split :: "string \<Rightarrow> string \<Rightarrow> py_error + string list" where
  "str_split s sep = (if sep = [] then Inl ValueError else Inr (str_split_from sep [] s))"

text \<open>
  \<^verbatim>\<open>c.isdigit()\<close> on the code points below 256: the ten decimal digits and the
  superscripts two, three and one.
\<close>

definition char_isdecimal :: "char \<Rightarrow> bool" where
  "char_isdecimal c = (48 \<le> (of_char c :: nat) \<and> (of_char c :: nat) \<le> 57)"

definition char_isdigit :: "char \<Rightarrow> bool" where
  "char_isdigit c =
     (char_isdecimal c \<or> (of_char c :: nat) = 178 \<or> (of_char c :: nat) = 179
        \<or> (of_char c :: nat) = 185)"

definition isdigit :: "string \<Rightarrow> bool" where
  "isdigit s = (s \<noteq> [] \<and> list_all char_isdigit s)"

text \<open>
  \<^verbatim>\<open>int(s)\<close>, on the strings \<open>isdigit\<close> accepts (no sign, blank or underscore): the
  decimal value when every character is a decimal digit, ValueError otherwise.
\<close>

definition digit_value :: "char \<Rightarrow> int" where
  "digit_value c = int (of_char c) - 48"

definition py_int :: "string \<Rightarrow> py_error + int" where
  "py_int s =
     (if s \<noteq> [] \<and> list_all char_isdecimal s
      then Inr (foldl (\<lambda>a c. 10 * a + digit_value c) 0 s)
      else Inl ValueError)"

subsection \<open>Operators on values\<close>

text \<open>\<^verbatim>\<open>sub in v\<close> for a string \<open>sub\<close>\<close>

fun py_contains :: "string \<Rightarrow> pyval \<Rightarrow> py_error + bool" where
  "py_contains sub (PStr s) = Inr (str_contains sub s)"
| "py_contains sub (PList xs) = Inr (PStr sub \<in> set xs)"
| "py_contains sub (PDict kvs) = Inr (sub \<in> fst ` set kvs)"
| "py_contains sub v = Inl TypeError"

text \<open>\<^verbatim>\<open>v[key]\<close> for a string \<open>key\<close>\<close>

fun py_getitem :: "pyval \<Rightarrow> string \<Rightarrow> py_error + pyval" where
  "py_getitem (PDict kvs) key = (case map_of kvs key of None \<Rightarrow> Inl KeyError | Some v \<Rightarrow> Inr v)"
| "py_getitem v key = Inl TypeError"

text \<open>\<^verbatim>\<open>v[i]\<close> for an index \<open>i \<ge> 0\<close>\<close>

fun py_index :: "pyval \<Rightarrow> nat \<Rightarrow> py_error + pyval" where
  "py_index (PList xs) i = (if i < length xs then Inr (xs ! i) else Inl IndexError)"
| "py_index (PStr s) i = (if i < length s then Inr (PStr [s ! i]) else Inl IndexError)"
| "py_index (PDict kvs) i = Inl KeyError"
| "py_index v i = Inl TypeError"

text \<open>\<^verbatim>\<open>for x in v\<close>: the elements in the order of iteration\<close>

fun py_iter :: "pyval \<Rightarrow> py_error + pyval list" where
  "py_iter (PList xs) = Inr xs"
| "py_iter (PDict kvs) = Inr (map (\<lambda>kv. PStr (fst kv)) kvs)"
| "py_iter (PStr s) = Inr (map (\<lambda>c. PStr [c]) s)"
| "py_iter v = Inl TypeError"

text \<open>the truth value of \<open>v\<close> in \<^verbatim>\<open>if v\<close> and \<^verbatim>\<open>not v\<close>\<close>

fun py_truthy :: "pyval \<Rightarrow> bool" where
  "py_truthy PNone = False"
| "py_truthy (PBool b) = b"
| "py_truthy (PInt n) = (n \<noteq> 0)"
| "py_truthy (PStr s) = (s \<noteq> [])"
| "py_truthy (PList xs) = (xs \<noteq> [])"
| "py_truthy (PDict kvs) = (kvs \<noteq> [])"
| "py_truthy (PObj r) = True"

text \<open>\<^verbatim>\<open>s + v\<close> for a string \<open>s\<close>: only a string can be appended\<close>

fun py_concat :: "string \<Rightarrow> pyval \<Rightarrow> py_error + string" where
  "py_concat s (PStr t) = Inr (s @ t)"
| "py_concat s v = Inl TypeError"

section \<open>The object store, effects and the transport\<close>

text \<open>
  Instances live in a store; an attribute that holds an instance holds its address.
  Attributes \<^verbatim>\<open>apiUrl\<close>, \<^verbatim>\<open>headers\<close>, \<^verbatim>\<open>thread_id\<close> and \<^verbatim>\<open>thread_name\<close> are constants of the
  transport and of the thread library and are left out. A Python function value is a
  name (\<open>func\<close>); what calling it does is a parameter of \<open>Analyzer_manager\<close>.
  An attribute that \<^verbatim>\<open>__init__\<close> may leave unset is an option.
\<close>

datatype func = Func string

record workspace =
  ws_name :: string
  ws_token :: string
  ws_boards_limit :: int
  ws_print_api_protocol :: bool
  ws_boards :: "(string \<times> ref) list"
  ws_work_space_id :: pyval

record board =
  b_work_space :: ref
  b_name :: string
  b_columns :: "(string \<times> ref) list"
  b_groups :: "(string \<times> ref) list"
  b_board_id :: "pyval option"
  b_status_column_id :: "pyval option"
  b_execution_dict :: "(string \<times> func) list option"
  b_check_rate :: "int option"

record group =
  g_board :: ref
  g_title :: string
  g_items :: "(string \<times> ref) list"
  g_group_id :: "pyval option"

record column =
  c_board :: ref
  c_title :: string
  c_description :: string
  c_column_type :: string
  c_column_id :: "pyval option"

record item =
  i_group :: pyval
  i_item_id :: pyval
  i_name :: string
  i_columns_values :: "(string \<times> pyval) list"

record analyzer =
  a_input_board :: ref
  a_item_id :: pyval
  a_function :: func
  a_inputs :: "(string \<times> pyval) list"

datatype obj =
    OWorkSpace workspace
  | OBoard board
  | OGroup group
  | OColumn column
  | OItem item
  | OAnalyzer analyzer

text \<open>
  What the program does to the outside, in order: a query posted, a sleep, a message
  appended to \<^verbatim>\<open>errors.txt\<close>, a line printed, a thread started.
\<close>

datatype event =
    Send string
  | Sleep int
  | WriteErrors string
  | Print "pyval list"
  | Start ref

text \<open>
  \<open>pending\<close> holds the answers the remote service will give to the next posts, each
  already decoded by \<^verbatim>\<open>json.loads\<close>.
\<close>

record world =
  heap :: "obj list"
  events :: "event list"
  pending :: "pyval list"

type_synonym 'a io = "world \<Rightarrow> (py_error + 'a) \<times> world"

definition ret :: "'a \<Rightarrow> 'a io" where
  "ret x w = (Inr x, w)"

definition raise :: "py_error \<Rightarrow> 'a io" where
  "raise e w = (Inl e, w)"

definition lift :: "py_error + 'a \<Rightarrow> 'a io" where
  "lift r w = (r, w)"

definition bind :: "'a io \<Rightarrow> ('a \<Rightarrow> 'b io) \<Rightarrow> 'b io" where
  "bind m f w = (case m w of (Inl e, w') \<Rightarrow> (Inl e, w') | (Inr x, w') \<Rightarrow> f x w')"

definition emit :: "event \<Rightarrow> unit io" where
  "emit e w = (Inr (), w\<lparr>events := events w @ [e]\<rparr>)"

definition if_then :: "bool \<Rightarrow> unit io \<Rightarrow> unit io" where
  "if_then b m = (if b then m else ret ())"

text \<open>\<^verbatim>\<open>print(...)\<close>\<close>

definition py_print :: "pyval list \<Rightarrow> unit io" where
  "py_print args = emit (Print args)"

text \<open>
  \<^verbatim>\<open>sleep(v)\<close> of the module \<^verbatim>\<open>time\<close>. The interpreter turns the seconds into a signed
  64-bit count of nanoseconds: an integer above \<open>sleep_max\<close>, the quotient of
  \<open>2 ^ 63 - 1\<close> by \<open>10 ^ 9\<close>, raises OverflowError and a negative one ValueError; a
  string or None raises TypeError.
\<close>

definition sleep_max :: int where
  "sleep_max = 9223372036"

fun sleep :: "pyval \<Rightarrow> unit io" where
  "sleep (PInt n) =
     (if sleep_max < n then raise OverflowError
      else if n < 0 then raise ValueError
      else emit (Sleep n))"
| "sleep (PBool b) = emit (Sleep (if b then 1 else 0))"
| "sleep v = raise TypeError"

text \<open>
  \<^verbatim>\<open>with open("errors.txt", "a") as file1: file1.write(v)\<close>: only a string can be
  written.
\<close>

fun write_errors_file :: "pyval \<Rightarrow> unit io" where
  "write_errors_file (PStr s) = emit (WriteErrors s)"
| "write_errors_file v = raise TypeError"

text \<open>
  \<^verbatim>\<open>json.loads(requests.post(url, json={'query': query}, headers=...).text)\<close>: the
  query is sent and the next pending answer comes back.
\<close>

definition requests_post :: "string \<Rightarrow> pyval io" where
  "requests_post query w =
     (case pending w of
        [] \<Rightarrow> (Inl NoResponse, w\<lparr>events := events w @ [Send query]\<rparr>)
      | r # rs \<Rightarrow> (Inr r, w\<lparr>events := events w @ [Send query], pending := rs\<rparr>))"

subsection \<open>Reading the store\<close>

definition deref :: "ref \<Rightarrow> world \<Rightarrow> obj option" where
  "deref r w = (if r < length (heap w) then Some (heap w ! r) else None)"

definition alloc :: "obj \<Rightarrow> ref io" where
  "alloc ob w = (Inr (length (heap w)), w\<lparr>heap := heap w @ [ob]\<rparr>)"

definition store :: "ref \<Rightarrow> obj \<Rightarrow> unit io" where
  "store r ob w = (Inr (), w\<lparr>heap := (heap w)[r := ob]\<rparr>)"

definition get_workspace :: "ref \<Rightarrow> workspace io" where
  "get_workspace r w =
     (case deref r w of Some (OWorkSpace ws) \<Rightarrow> (Inr ws, w) | _ \<Rightarrow> (Inl AttributeError, w))"

definition get_board :: "ref \<Rightarrow> board io" where
  "get_board r w =
     (case deref r w of Some (OBoard b) \<Rightarrow> (Inr b, w) | _ \<Rightarrow> (Inl AttributeError, w))"

definition get_group :: "ref \<Rightarrow> group io" where
  "get_group r w =
     (case deref r w of Some (OGroup g) \<Rightarrow> (Inr g, w) | _ \<Rightarrow> (Inl AttributeError, w))"

definition get_column :: "ref \<Rightarrow> column io" where
  "get_column r w =
     (case deref r w of Some (OColumn c) \<Rightarrow> (Inr c, w) | _ \<Rightarrow> (Inl AttributeError, w))"

definition get_item :: "ref \<Rightarrow> item io" where
  "get_item r w =
     (case deref r w of Some (OItem i) \<Rightarrow> (Inr i, w) | _ \<Rightarrow> (Inl AttributeError, w))"

definition get_analyzer :: "ref \<Rightarrow> analyzer io" where
  "get_analyzer r w =
     (case deref r w of Some (OAnalyzer a) \<Rightarrow> (Inr a, w) | _ \<Rightarrow> (Inl AttributeError, w))"

text \<open>reading an attribute that may be unset\<close>

definition attr :: "'a option \<Rightarrow> 'a io" where
  "attr v = (case v of None \<Rightarrow> raise AttributeError | Some x \<Rightarrow> ret x)"

section \<open>WorkSpace: the request executor\<close>

text \<open>
  \<^verbatim>\<open>handle_response_errors\<close>, lines 166 to 182: the number of seconds to rest for a
  message that holds \<^verbatim>\<open>'Complexity budget exhausted'\<close>.
\<close>

definition seconds_to_rest :: "pyval \<Rightarrow> py_error + pyval" where
  "seconds_to_rest error_message =
     (case py_contains ''reset in '' error_message of
        Inl e \<Rightarrow> Inl e
      | Inr False \<Rightarrow> Inr (PInt 5)
      | Inr True \<Rightarrow>
          (case error_message of
             PStr s \<Rightarrow>
               (case str_split s ''reset in '' of
                  Inl e \<Rightarrow> Inl e
                | Inr parts \<Rightarrow>
                    (case py_index (PList (map PStr parts)) 1 of
                       Inl e \<Rightarrow> Inl e
                     | Inr part \<Rightarrow>
                         (case py_index part 0 of
                            Inl e \<Rightarrow> Inl e
                          | Inr (PStr c) \<Rightarrow>
                              if isdigit c
                              then (case py_int c of
                                      Inl e \<Rightarrow> Inl e
                                    | Inr n \<Rightarrow> Inr (PInt (n + 1)))
                              else Inr (PStr c)
                          | Inr v \<Rightarrow> Inl AttributeError)))
           | _ \<Rightarrow> Inl AttributeError))"

text \<open>
  The loop \<^verbatim>\<open>for error in errors\<close> of \<^verbatim>\<open>handle_response_errors\<close> (lines 157 to 198),
  with the \<^verbatim>\<open>return False\<close> that follows it.
\<close>

fun handle_response_errors_loop :: "pyval list \<Rightarrow> bool io" where
  "handle_response_errors_loop [] = ret False"
| "handle_response_errors_loop (error # errors) =
     bind (lift (py_contains ''message'' error)) (\<lambda>has_message.
       if has_message then
         bind (lift (py_getitem error ''message'')) (\<lambda>error_message.
         bind (lift (py_contains ''Complexity budget exhausted'' error_message)) (\<lambda>exhausted.
           if exhausted then
             bind (lift (seconds_to_rest error_message)) (\<lambda>seconds.
             bind (sleep seconds) (\<lambda>_. ret False))
           else
             bind (write_errors_file error_message) (\<lambda>_.
             handle_response_errors_loop errors)))
       else handle_response_errors_loop errors)"

definition handle_response_errors :: "pyval \<Rightarrow> bool io" where
  "handle_response_errors response =
     bind (lift (py_contains ''errors'' response)) (\<lambda>has_errors.
       if has_errors then
         bind (lift (py_getitem response ''errors'')) (\<lambda>errors.
         bind (lift (py_iter errors)) handle_response_errors_loop)
       else ret True)"

text \<open>
  \<^verbatim>\<open>post_request\<close>, lines 126 to 140: the \<^verbatim>\<open>try\<close> block that returns \<^verbatim>\<open>response['data']\<close>
  and the bare \<^verbatim>\<open>except\<close> after which the function ends without a \<^verbatim>\<open>return\<close>, so that
  the caller receives None.
\<close>

definition post_request_answer :: "bool \<Rightarrow> string \<Rightarrow> pyval \<Rightarrow> pyval io" where
  "post_request_answer print_api_protocol query response =
     bind (if_then print_api_protocol
             (bind (py_print [PStr ''received:'', response]) (\<lambda>_. py_print []))) (\<lambda>_.
       case py_getitem response ''data'' of
         Inr data \<Rightarrow> ret data
       | Inl e \<Rightarrow>
           bind (if_then print_api_protocol
                   (bind (py_print [PStr ''untracked error in post request:'']) (\<lambda>_.
                    bind (py_print [PStr ''query:'', PStr query]) (\<lambda>_.
                    bind (py_print [PStr ''error: '', response]) (\<lambda>_.
                    py_print []))))) (\<lambda>_.
           ret PNone))"

text \<open>
  The first half of \<^verbatim>\<open>post_request\<close> (lines 109 to 118): the query is echoed when
  the workspace asks for it, sent, and the answer decoded.
\<close>

definition post_request_send :: "bool \<Rightarrow> string \<Rightarrow> pyval io" where
  "post_request_send print_api_protocol query =
     bind (if_then print_api_protocol (py_print [PStr ''sending:'', PStr query])) (\<lambda>_.
     requests_post query)"

lemma pending_emit: "emit e w = (r, w') \<Longrightarrow> pending w' = pending w"
  by (auto simp: emit_def)

lemma pending_sleep: "sleep v w = (r, w') \<Longrightarrow> pending w' = pending w"
  by (cases v) (auto simp: emit_def raise_def split: if_splits)

lemma pending_write_errors_file: "write_errors_file v w = (r, w') \<Longrightarrow> pending w' = pending w"
  by (cases v) (auto simp: emit_def raise_def)

lemma pending_handle_response_errors_loop:
  "handle_response_errors_loop errors w = (r, w') \<Longrightarrow> pending w' = pending w"
proof (induction errors arbitrary: w)
  case Nil
  then show ?case by (simp add: ret_def)
next
  case (Cons error errors)
  then show ?case
    by (auto simp: bind_def lift_def ret_def split: sum.splits if_splits prod.splits
        dest: pending_sleep pending_write_errors_file)
qed

lemma pending_handle_response_errors:
  "handle_response_errors response w = (r, w') \<Longrightarrow> pending w' = pending w"
  by (auto simp: handle_response_errors_def bind_def lift_def ret_def
      split: sum.splits if_splits dest: pending_handle_response_errors_loop)

lemma pending_post_request_send:
  "post_request_send p query w = (Inr response, w') \<Longrightarrow> length (pending w') < length (pending w)"
  by (auto simp: post_request_send_def bind_def if_then_def py_print_def emit_def ret_def
      requests_post_def split: if_splits list.splits)

lemma get_workspace_world: "get_workspace r w = (x, w') \<Longrightarrow> w' = w"
  by (auto simp: get_workspace_def split: option.splits obj.splits)

text \<open>
  \<^verbatim>\<open>WorkSpace.post_request\<close>. The retry is the recursive call of line 124, with the
  same query.
\<close>

function post_request :: "ref \<Rightarrow> string \<Rightarrow> pyval io" where
  "post_request self query w =
     (case get_workspace self w of
        (Inl e, w0) \<Rightarrow> (Inl e, w0)
      | (Inr ws, w0) \<Rightarrow>
          (case post_request_send (ws_print_api_protocol ws) query w0 of
             (Inl e, w1) \<Rightarrow> (Inl e, w1)
           | (Inr response, w1) \<Rightarrow>
               (case handle_response_errors response w1 of
                  (Inl e, w2) \<Rightarrow> (Inl e, w2)
                | (Inr ok, w2) \<Rightarrow>
                    if \<not> ok then post_request self query w2
                    else post_request_answer (ws_print_api_protocol ws) query response w2)))"
  by pat_completeness auto
termination post_request
proof (relation "measure (\<lambda>(self, query, w). length (pending w))")
  show "wf (measure (\<lambda>(self, query, w). length (pending w)))"
    by simp
next
  fix self :: ref and query :: string and w w0 w1 w2 :: world
    and x xa and ws :: workspace and xb and response :: pyval and xc and ok :: bool
  assume "(x, w0) = get_workspace self w" and "xa = Inr ws"
    and "(xb, w1) = post_request_send (ws_print_api_protocol ws) query w0"
    and "xb = Inr response"
    and "(xc, w2) = handle_response_errors response w1"
  then have "w0 = w" and "length (pending w1) < length (pending w0)" and "pending w2 = pending w1"
    using get_workspace_world [of self w x w0]
      pending_post_request_send [of "ws_print_api_protocol ws" query w0 response w1]
      pending_handle_response_errors [of response w1 xc w2]
    by simp_all
  then show "((self, query, w2), self, query, w) \<in> measure (\<lambda>(self, query, w). length (pending w))"
    by simp
qed

declare post_request.simps [simp del]

text \<open>
  \<^verbatim>\<open>WorkSpace.get_ws_id\<close>. \<^verbatim>\<open>list(self.boards.values())[0]\<close> is the board inserted
  first.
\<close>

definition get_ws_id :: "ref \<Rightarrow> pyval io" where
  "get_ws_id self =
     bind (get_workspace self) (\<lambda>ws.
       if ws_boards ws = [] then
         bind (py_print
                 [PStr (''Please create at least one board, can'' @ [CHR 0x27]
                        @ ''t locate an empty workspace.'')]) (\<lambda>_.
         ret PNone)
       else
         bind (get_board (snd (hd (ws_boards ws)))) (\<lambda>first_board.
         bind (attr (b_board_id first_board)) (\<lambda>board_id.
         bind (lift (py_concat ''{ boards (ids:'' board_id)) (\<lambda>query.
         bind (post_request self (query @ ''){id name workspace {id name} }}'')) (\<lambda>data.
         bind (lift (py_getitem data ''boards'')) (\<lambda>boards.
         bind (lift (py_index boards 0)) (\<lambda>board0.
         bind (lift (py_getitem board0 ''workspace'')) (\<lambda>workspace.
         lift (py_getitem workspace ''id'')))))))))"

text \<open>\<^verbatim>\<open>WorkSpace.add_board\<close>\<close>

definition update_workspace :: "ref \<Rightarrow> (workspace \<Rightarrow> workspace) \<Rightarrow> unit io" where
  "update_workspace r f = bind (get_workspace r) (\<lambda>ws. store r (OWorkSpace (f ws)))"

definition update_board :: "ref \<Rightarrow> (board \<Rightarrow> board) \<Rightarrow> unit io" where
  "update_board r f = bind (get_board r) (\<lambda>b. store r (OBoard (f b)))"

definition update_group :: "ref \<Rightarrow> (group \<Rightarrow> group) \<Rightarrow> unit io" where
  "update_group r f = bind (get_group r) (\<lambda>g. store r (OGroup (f g)))"

definition update_column :: "ref \<Rightarrow> (column \<Rightarrow> column) \<Rightarrow> unit io" where
  "update_column r f = bind (get_column r) (\<lambda>c. store r (OColumn (f c)))"

definition update_item :: "ref \<Rightarrow> (item \<Rightarrow> item) \<Rightarrow> unit io" where
  "update_item r f = bind (get_item r) (\<lambda>i. store r (OItem (f i)))"

definition add_board :: "ref \<Rightarrow> ref \<Rightarrow> unit io" where
  "add_board self board =
     bind (get_board board) (\<lambda>b.
     update_workspace self (\<lambda>ws. ws\<lparr>ws_boards := AList.update (b_name b) board (ws_boards ws)\<rparr>))"

section \<open>The entities\<close>

text \<open>The characters \<^verbatim>\<open>"\<close> and \<^verbatim>\<open>\\<close> of the query texts.\<close>

definition dq :: string where
  "dq = [CHR 0x22]"

definition bs :: string where
  "bs = [CHR 0x5C]"

subsection \<open>Column\<close>

text \<open>\<^verbatim>\<open>Column.__init__\<close>: the address of the new instance.\<close>

definition Column_init :: "ref \<Rightarrow> string \<Rightarrow> string \<Rightarrow> string \<Rightarrow> pyval \<Rightarrow> ref io" where
  "Column_init board title description column_type column_id =
     bind (alloc (OColumn \<lparr>c_board = board, c_title = title, c_description = description,
                           c_column_type = column_type, c_column_id = None\<rparr>)) (\<lambda>self.
     bind (if py_truthy column_id then ret column_id
           else
             bind (get_board board) (\<lambda>b.
             bind (attr (b_board_id b)) (\<lambda>board_id.
             bind (lift (py_concat ''mutation{ create_column(board_id: '' board_id)) (\<lambda>query.
             bind (post_request (b_work_space b)
                     (query @ '', title:'' @ dq @ title @ dq @ '', description: '' @ dq
                        @ description @ dq @ '', column_type:'' @ column_type
                        @ '') { id title description } }'')) (\<lambda>data.
             bind (lift (py_getitem data ''create_column'')) (\<lambda>created.
             lift (py_getitem created ''id''))))))) (\<lambda>new_id.
     bind (update_column self (\<lambda>c. c\<lparr>c_column_id := Some new_id\<rparr>)) (\<lambda>_.
     ret self)))"

subsection \<open>Group\<close>

text \<open>\<^verbatim>\<open>Group.__init__\<close>\<close>

definition Group_init :: "ref \<Rightarrow> string \<Rightarrow> pyval \<Rightarrow> ref io" where
  "Group_init board title group_id =
     bind (alloc (OGroup \<lparr>g_board = board, g_title = title, g_items = [],
                          g_group_id = None\<rparr>)) (\<lambda>self.
     bind (if py_truthy group_id then ret group_id
           else
             bind (get_board board) (\<lambda>b.
             bind (attr (b_board_id b)) (\<lambda>board_id.
             bind (lift (py_concat ''mutation { create_group (board_id: '' board_id)) (\<lambda>query.
             bind (post_request (b_work_space b)
                     (query @ '', group_name: '' @ dq @ title @ dq @ '') { id } }'')) (\<lambda>data.
             bind (lift (py_getitem data ''create_group'')) (\<lambda>created.
             lift (py_getitem created ''id''))))))) (\<lambda>new_id.
     bind (update_group self (\<lambda>g. g\<lparr>g_group_id := Some new_id\<rparr>)) (\<lambda>_.
     ret self)))"

text \<open>\<^verbatim>\<open>Group.add_item\<close>\<close>

definition add_item :: "ref \<Rightarrow> ref \<Rightarrow> unit io" where
  "add_item self item =
     bind (get_item item) (\<lambda>i.
     update_group self (\<lambda>g. g\<lparr>g_items := AList.update (i_name i) item (g_items g)\<rparr>))"

subsection \<open>Item\<close>

text \<open>
  \<^verbatim>\<open>json.dumps(v)\<close> with its default arguments: separators \<^verbatim>\<open>', '\<close> and \<^verbatim>\<open>': '\<close>, every
  character outside the printable ASCII range escaped. An instance of a class of the
  program is not serializable.
\<close>

fun str_of_nat :: "nat \<Rightarrow> string" where
  "str_of_nat n =
     (if n < 10 then [char_of (48 + n)]
      else str_of_nat (n div 10) @ [char_of (48 + n mod 10)])"

definition str_of_int :: "int \<Rightarrow> string" where
  "str_of_int i = (if i < 0 then ''-'' @ str_of_nat (nat (- i)) else str_of_nat (nat i))"

definition hex_digit :: "nat \<Rightarrow> char" where
  "hex_digit n = (if n < 10 then char_of (48 + n) else char_of (87 + n))"

definition json_escape :: "char \<Rightarrow> string" where
  "json_escape c =
     (if c = CHR 0x22 then bs @ dq
      else if c = CHR 0x5C then bs @ bs
      else if c = CHR 0x0A then bs @ ''n''
      else if c = CHR 0x0D then bs @ ''r''
      else if c = CHR 0x09 then bs @ ''t''
      else if c = CHR 0x0C then bs @ ''f''
      else if c = CHR 0x08 then bs @ ''b''
      else if (of_char c :: nat) < 32 \<or> 126 < (of_char c :: nat)
        then bs @ ''u00'' @ [hex_digit (of_char c div 16), hex_digit (of_char c mod 16)]
      else [c])"

definition json_string :: "string \<Rightarrow> string" where
  "json_string s = dq @ concat (map json_escape s) @ dq"

fun join :: "string \<Rightarrow> string list \<Rightarrow> string" where
  "join sep [] = []"
| "join sep [p] = p"
| "join sep (p # q # ps) = p @ sep @ join sep (q # ps)"

fun json_dumps :: "pyval \<Rightarrow> py_error + string"
  and json_dumps_list :: "pyval list \<Rightarrow> py_error + string list"
  and json_dumps_items :: "(string \<times> pyval) list \<Rightarrow> py_error + string list"
where
  "json_dumps PNone = Inr ''null''"
| "json_dumps (PBool b) = Inr (if b then ''true'' else ''false'')"
| "json_dumps (PInt n) = Inr (str_of_int n)"
| "json_dumps (PStr s) = Inr (json_string s)"
| "json_dumps (PList xs) =
     (case json_dumps_list xs of
        Inl e \<Rightarrow> Inl e
      | Inr ps \<Rightarrow> Inr (''['' @ join '', '' ps @ '']''))"
| "json_dumps (PDict kvs) =
     (case json_dumps_items kvs of
        Inl e \<Rightarrow> Inl e
      | Inr ps \<Rightarrow> Inr (''{'' @ join '', '' ps @ ''}''))"
| "json_dumps (PObj r) = Inl TypeError"
| "json_dumps_list [] = Inr []"
| "json_dumps_list (x # xs) =
     (case json_dumps x of
        Inl e \<Rightarrow> Inl e
      | Inr p \<Rightarrow> (case json_dumps_list xs of Inl e \<Rightarrow> Inl e | Inr ps \<Rightarrow> Inr (p # ps)))"
| "json_dumps_items [] = Inr []"
| "json_dumps_items (kv # kvs) =
     (case json_dumps (snd kv) of
        Inl e \<Rightarrow> Inl e
      | Inr p \<Rightarrow>
          (case json_dumps_items kvs of
             Inl e \<Rightarrow> Inl e
           | Inr ps \<Rightarrow> Inr ((json_string (fst kv) @ '': '' @ p) # ps)))"

text \<open>
  The entries of \<^verbatim>\<open>json_columns_values\<close>, as the query of line 243 asks for them:
  \<^verbatim>\<open>column_values{id text}\<close>.
\<close>

record json_column_value =
  jv_id :: string
  jv_text :: pyval

text \<open>\<^verbatim>\<open>Item.set_columns\<close>\<close>

fun Item_set_columns :: "ref \<Rightarrow> json_column_value list \<Rightarrow> unit io" where
  "Item_set_columns self [] = ret ()"
| "Item_set_columns self (column_value # json_columns_values) =
     bind (update_item self (\<lambda>i. i\<lparr>i_columns_values :=
             AList.update (jv_id column_value) (jv_text column_value) (i_columns_values i)\<rparr>)) (\<lambda>_.
     Item_set_columns self json_columns_values)"

text \<open>
  \<^verbatim>\<open>self.group.board\<close> needs \<^verbatim>\<open>self.group\<close> to be an instance with an attribute
  \<^verbatim>\<open>board\<close>: a string or None has none.
\<close>

fun group_of :: "pyval \<Rightarrow> group io" where
  "group_of (PObj r) = get_group r"
| "group_of v = raise AttributeError"

text \<open>\<^verbatim>\<open>self.group.board.columns[column_title].column_id\<close>\<close>

definition column_id_of :: "pyval \<Rightarrow> string \<Rightarrow> pyval io" where
  "column_id_of grp column_title =
     bind (group_of grp) (\<lambda>g.
     bind (get_board (g_board g)) (\<lambda>b.
       case map_of (b_columns b) column_title of
         None \<Rightarrow> raise KeyError
       | Some c \<Rightarrow> bind (get_column c) (\<lambda>col. attr (c_column_id col))))"

text \<open>
  The loop of lines 712 to 719 over \<^verbatim>\<open>columns_values\<close>; \<open>acc\<close> is
  \<^verbatim>\<open>columns_values_json\<close>. In the Python source \<^verbatim>\<open>'\\\"'\<close> is a backslash and a quote.
\<close>

fun columns_values_json :: "pyval \<Rightarrow> (string \<times> pyval) list \<Rightarrow> string \<Rightarrow> string io" where
  "columns_values_json grp [] acc = ret acc"
| "columns_values_json grp ((column_title, PStr s) # columns_values) acc =
     bind (column_id_of grp column_title) (\<lambda>column_id.
     bind (lift (py_concat (bs @ dq) column_id)) (\<lambda>key.
     columns_values_json grp columns_values
       (acc @ key @ bs @ dq @ '': '' @ bs @ dq @ s @ bs @ dq @ '', '')))"
| "columns_values_json grp ((column_title, PDict d) # columns_values) acc =
     bind (column_id_of grp column_title) (\<lambda>column_id.
     bind (lift (py_concat (bs @ dq) column_id)) (\<lambda>key.
     bind (lift (json_dumps (PDict d))) (\<lambda>dumped.
     columns_values_json grp columns_values
       (acc @ key @ bs @ dq @ '': '' @ dumped @ '', ''))))"
| "columns_values_json grp ((column_title, v) # columns_values) acc =
     columns_values_json grp columns_values acc"

text \<open>Lines 722 to 725: the last \<^verbatim>\<open>', '\<close> is cut and the brace closed.\<close>

definition close_columns_values_json :: "string \<Rightarrow> string" where
  "close_columns_values_json acc =
     (if length acc > 1 then take (length acc - 2) acc else acc) @ ''}''"

text \<open>\<^verbatim>\<open>Item.__init__\<close>\<close>

definition Item_init ::
  "pyval \<Rightarrow> string \<Rightarrow> pyval \<Rightarrow> json_column_value list option \<Rightarrow> (string \<times> pyval) list \<Rightarrow> ref io"
where
  "Item_init grp name item_id json_columns_values columns_values =
     bind (alloc (OItem \<lparr>i_group = grp, i_item_id = item_id, i_name = name,
                         i_columns_values = []\<rparr>)) (\<lambda>self.
       if py_truthy item_id then
         bind (case json_columns_values of
                 None \<Rightarrow> raise TypeError
               | Some values \<Rightarrow> Item_set_columns self values) (\<lambda>_.
         ret self)
       else
         bind (columns_values_json grp columns_values ''{'') (\<lambda>acc.
         bind (group_of grp) (\<lambda>g.
         bind (get_board (g_board g)) (\<lambda>b.
         bind (attr (b_board_id b)) (\<lambda>board_id.
         bind (lift (py_concat ''mutation {create_item (board_id: '' board_id)) (\<lambda>query1.
         bind (attr (g_group_id g)) (\<lambda>group_id.
         bind (lift (py_concat (query1 @ '', group_id: '' @ dq) group_id)) (\<lambda>query2.
         bind (post_request (b_work_space b)
                 (query2 @ dq @ '', item_name: '' @ dq @ name @ dq @ '', column_values: '' @ dq
                    @ close_columns_values_json acc @ dq @ '') { id } }'')) (\<lambda>data.
         bind (lift (py_getitem data ''create_item'')) (\<lambda>created.
         bind (lift (py_getitem created ''id'')) (\<lambda>new_id.
         bind (update_item self (\<lambda>i. i\<lparr>i_item_id := new_id\<rparr>)) (\<lambda>_.
         ret self))))))))))))"

text \<open>\<^verbatim>\<open>Item.set_rating\<close>\<close>

definition set_rating :: "ref \<Rightarrow> string \<Rightarrow> string \<Rightarrow> pyval io" where
  "set_rating self column_title rating =
     bind (get_item self) (\<lambda>i.
     bind (group_of (i_group i)) (\<lambda>g.
     bind (get_board (g_board g)) (\<lambda>b.
     bind (attr (b_board_id b)) (\<lambda>board_id.
     bind (lift (py_concat ''mutation { change_column_value (board_id: '' board_id)) (\<lambda>query1.
     bind (lift (py_concat (query1 @ '', item_id: '') (i_item_id i))) (\<lambda>query2.
     bind (column_id_of (i_group i) column_title) (\<lambda>column_id.
     bind (lift (py_concat (query2 @ '', column_id: '' @ dq) column_id)) (\<lambda>query3.
     bind (post_request (b_work_space b)
             (query3 @ dq @ '', value: '' @ dq @ ''{'' @ bs @ dq @ ''rating'' @ bs @ dq @ '':''
                @ rating @ ''}'' @ dq @ '') { id } }'')) (\<lambda>_.
     ret PNone)))))))))"

text \<open>
  \<^verbatim>\<open>Group.set_items\<close>. It gives \<^verbatim>\<open>Item\<close> no \<^verbatim>\<open>json_columns_values\<close>; the entries are
  \<^verbatim>\<open>(id, name)\<close>. The value returned is the mapping built (empty for \<^verbatim>\<open>[]\<close>).
\<close>

fun Group_set_items_loop :: "ref \<Rightarrow> (string \<times> string) list \<Rightarrow> (string \<times> ref) list \<Rightarrow> (string \<times> ref) list io" where
  "Group_set_items_loop self [] items = ret items"
| "Group_set_items_loop self ((item_id, name) # json_items) items =
     bind (Item_init (PObj self) name (PStr item_id) None []) (\<lambda>new_item.
     Group_set_items_loop self json_items (AList.update name new_item items))"

definition Group_set_items :: "ref \<Rightarrow> (string \<times> string) list \<Rightarrow> (string \<times> ref) list io" where
  "Group_set_items self json_items =
     (if json_items = [] then ret [] else Group_set_items_loop self json_items [])"

subsection \<open>Board\<close>

text \<open>
  The payloads of a board, as the query of line 243 asks for them:
  \<^verbatim>\<open>groups{id title} columns{id title type description}
  items{id name group{id title} column_values{id text}}\<close>.
\<close>

record json_group =
  jg_id :: string
  jg_title :: string

record json_column =
  jc_id :: string
  jc_title :: string
  jc_type :: string
  jc_description :: string

record json_item =
  ji_id :: string
  ji_name :: string
  ji_group :: json_group
  ji_column_values :: "json_column_value list"

text \<open>\<^verbatim>\<open>Board.set_columns\<close>\<close>

fun Board_set_columns :: "ref \<Rightarrow> json_column list \<Rightarrow> unit io" where
  "Board_set_columns self [] = ret ()"
| "Board_set_columns self (column # json_columns) =
     bind (Column_init self (jc_title column) (jc_description column) (jc_type column)
             (PStr (jc_id column))) (\<lambda>new_column.
     bind (update_board self (\<lambda>b. b\<lparr>b_columns :=
             AList.update (jc_title column) new_column (b_columns b)\<rparr>)) (\<lambda>_.
     Board_set_columns self json_columns))"

text \<open>\<^verbatim>\<open>Board.set_groups\<close>\<close>

fun Board_set_groups :: "ref \<Rightarrow> json_group list \<Rightarrow> unit io" where
  "Board_set_groups self [] = ret ()"
| "Board_set_groups self (g # json_groups) =
     bind (Group_init self (jg_title g) (PStr (jg_id g))) (\<lambda>new_group.
     bind (update_board self (\<lambda>b. b\<lparr>b_groups :=
             AList.update (jg_title g) new_group (b_groups b)\<rparr>)) (\<lambda>_.
     Board_set_groups self json_groups))"

text \<open>
  \<^verbatim>\<open>Board.set_items\<close>. Line 394 gives \<^verbatim>\<open>Item\<close> the title of the group, a string, as
  its \<^verbatim>\<open>group\<close>.
\<close>

fun Board_set_items :: "ref \<Rightarrow> json_item list \<Rightarrow> unit io" where
  "Board_set_items self [] = ret ()"
| "Board_set_items self (item # json_items) =
     bind (Item_init (PStr (jg_title (ji_group item))) (ji_name item) (PStr (ji_id item))
             (Some (ji_column_values item)) []) (\<lambda>new_item.
     bind (get_board self) (\<lambda>b.
     bind (case map_of (b_groups b) (jg_title (ji_group item)) of
             None \<Rightarrow> raise KeyError
           | Some item_group \<Rightarrow> add_item item_group new_item) (\<lambda>_.
     Board_set_items self json_items)))"

text \<open>\<^verbatim>\<open>Board.add_column\<close> and \<^verbatim>\<open>Board.add_group\<close>\<close>

definition add_column :: "ref \<Rightarrow> ref \<Rightarrow> unit io" where
  "add_column self column =
     bind (get_column column) (\<lambda>c.
     update_board self (\<lambda>b. b\<lparr>b_columns := AList.update (c_title c) column (b_columns b)\<rparr>))"

definition add_group :: "ref \<Rightarrow> ref \<Rightarrow> unit io" where
  "add_group self grp =
     bind (get_group grp) (\<lambda>g.
     update_board self (\<lambda>b. b\<lparr>b_groups := AList.update (g_title g) grp (b_groups b)\<rparr>))"

text \<open>
  The loops that remove the default groups of a board (lines 315 to 321 and 344 to
  351, the same text twice).
\<close>

fun delete_groups :: "ref \<Rightarrow> pyval list \<Rightarrow> unit io" where
  "delete_groups self [] = ret ()"
| "delete_groups self (g # groups) =
     bind (get_board self) (\<lambda>b.
     bind (attr (b_board_id b)) (\<lambda>board_id.
     bind (lift (py_concat ''mutation { delete_group (board_id: '' board_id)) (\<lambda>query1.
     bind (lift (py_getitem g ''id'')) (\<lambda>group_id.
     bind (lift (py_concat (query1 @ '', group_id: '' @ dq) group_id)) (\<lambda>query2.
     bind (post_request (b_work_space b) (query2 @ dq @ '') { id deleted } }'')) (\<lambda>_.
     delete_groups self groups))))))"

definition remove_default_groups :: "ref \<Rightarrow> unit io" where
  "remove_default_groups self =
     bind (get_board self) (\<lambda>b.
     bind (attr (b_board_id b)) (\<lambda>board_id.
     bind (lift (py_concat ''{ boards (ids: '' board_id)) (\<lambda>query.
     bind (post_request (b_work_space b) (query @ '') {id groups{id title}} }'')) (\<lambda>data.
     bind (lift (py_getitem data ''boards'')) (\<lambda>boards.
     bind (lift (py_index boards 0)) (\<lambda>board0.
     bind (lift (py_getitem board0 ''groups'')) (\<lambda>groups.
     bind (lift (py_iter groups)) (delete_groups self))))))))"

text \<open>
  Lines 305 to 321, the board is created on monday. \<^verbatim>\<open>str\<close> is Python's builtin,
  taken as a parameter.
\<close>

definition Board_create :: "(pyval \<Rightarrow> string) \<Rightarrow> ref \<Rightarrow> unit io" where
  "Board_create str self =
     bind (get_board self) (\<lambda>b.
     bind (get_workspace (b_work_space b)) (\<lambda>ws.
     bind (post_request (b_work_space b)
             (''mutation { create_board (board_name: '' @ dq @ b_name b @ dq
                @ '', board_kind: private, workspace_id: '' @ str (ws_work_space_id ws)
                @ '') { id } }'')) (\<lambda>data.
     bind (lift (py_getitem data ''create_board'')) (\<lambda>created.
     bind (lift (py_getitem created ''id'')) (\<lambda>new_id.
     bind (update_board self (\<lambda>b. b\<lparr>b_board_id := Some new_id\<rparr>)) (\<lambda>_.
     remove_default_groups self))))))"

text \<open>Lines 326 to 354, the board is looked for by its name.\<close>

fun Board_find_loop :: "ref \<Rightarrow> pyval list \<Rightarrow> unit io" where
  "Board_find_loop self [] = ret ()"
| "Board_find_loop self (board # boards) =
     bind (get_board self) (\<lambda>b.
     bind (lift (py_getitem board ''workspace'')) (\<lambda>workspace.
       if \<not> py_truthy workspace then Board_find_loop self boards
       else
         bind (lift (py_getitem workspace ''name'')) (\<lambda>workspace_name.
         bind (get_workspace (b_work_space b)) (\<lambda>ws.
           if workspace_name \<noteq> PStr (ws_name ws) then Board_find_loop self boards
           else
             bind (lift (py_getitem board ''name'')) (\<lambda>board_name.
               if board_name \<noteq> PStr (b_name b) then Board_find_loop self boards
               else
                 bind (lift (py_getitem board ''id'')) (\<lambda>found_id.
                 bind (update_board self (\<lambda>b. b\<lparr>b_board_id := Some found_id\<rparr>)) (\<lambda>_.
                 remove_default_groups self)))))))"

definition Board_find :: "ref \<Rightarrow> unit io" where
  "Board_find self =
     bind (get_board self) (\<lambda>b.
     bind (post_request (b_work_space b) ''{ boards {id name workspace {id name} }}'') (\<lambda>boards_names.
     bind (lift (py_getitem boards_names ''boards'')) (\<lambda>boards.
     bind (lift (py_iter boards)) (Board_find_loop self))))"

text \<open>
  \<^verbatim>\<open>Board.__init__\<close>. A payload left out is None; \<^verbatim>\<open>if json_groups\<close> holds for a list
  that is not empty.
\<close>

definition Board_init ::
  "(pyval \<Rightarrow> string) \<Rightarrow> ref \<Rightarrow> string \<Rightarrow> bool \<Rightarrow> json_group list option \<Rightarrow>
   json_column list option \<Rightarrow> json_item list option \<Rightarrow> pyval \<Rightarrow> ref io"
where
  "Board_init str ws name exists json_groups json_columns json_items board_id =
     bind (alloc (OBoard \<lparr>b_work_space = ws, b_name = name, b_columns = [], b_groups = [],
                          b_board_id = None, b_status_column_id = None,
                          b_execution_dict = None, b_check_rate = None\<rparr>)) (\<lambda>self.
       case json_groups of
         Some (g # groups) \<Rightarrow>
           bind (update_board self (\<lambda>b. b\<lparr>b_board_id := Some board_id\<rparr>)) (\<lambda>_.
           bind (case json_columns of
                   None \<Rightarrow> raise TypeError
                 | Some columns \<Rightarrow> Board_set_columns self columns) (\<lambda>_.
           bind (Board_set_groups self (g # groups)) (\<lambda>_.
           bind (case json_items of
                   None \<Rightarrow> raise TypeError
                 | Some items \<Rightarrow> Board_set_items self items) (\<lambda>_.
           ret self))))
       | _ \<Rightarrow>
           bind (if \<not> exists then Board_create str self else Board_find self) (\<lambda>_.
           bind (add_board ws self) (\<lambda>_.
           ret self)))"

section \<open>The input board and its analyzers\<close>

text \<open>\<^verbatim>\<open>InputBoard.__init__\<close>; the part of \<^verbatim>\<open>MyThread.__init__\<close> has no attribute modelled.\<close>

definition InputBoard_init ::
  "(pyval \<Rightarrow> string) \<Rightarrow> ref \<Rightarrow> string \<Rightarrow> (string \<times> func) list \<Rightarrow> int \<Rightarrow> ref io"
where
  "InputBoard_init str ws name execution_dict check_rate =
     bind (Board_init str ws name False None None None PNone) (\<lambda>self.
     bind (Column_init self ''Execution Status'' '''' ''status'' PNone) (\<lambda>status_column.
     bind (add_column self status_column) (\<lambda>_.
     bind (get_board self) (\<lambda>b.
     bind (case map_of (b_columns b) ''Execution Status'' of
             None \<Rightarrow> raise KeyError
           | Some c \<Rightarrow> bind (get_column c) (\<lambda>col. attr (c_column_id col))) (\<lambda>status_column_id.
     bind (update_board self (\<lambda>b. b\<lparr>b_status_column_id := Some status_column_id,
                                       b_execution_dict := Some execution_dict,
                                       b_check_rate := Some check_rate\<rparr>)) (\<lambda>_.
     ret self))))))"

text \<open>
  \<^verbatim>\<open>self.execution_dict[title]\<close>: the keys are strings, a list or dictionary cannot
  be a key at all.
\<close>

fun execution_dict_lookup :: "(string \<times> func) list \<Rightarrow> pyval \<Rightarrow> py_error + func" where
  "execution_dict_lookup d (PStr title) =
     (case map_of d title of None \<Rightarrow> Inl KeyError | Some f \<Rightarrow> Inr f)"
| "execution_dict_lookup d (PList xs) = Inl TypeError"
| "execution_dict_lookup d (PDict kvs) = Inl TypeError"
| "execution_dict_lookup d v = Inl KeyError"

text \<open>\<^verbatim>\<open>Analyzer.__init__\<close>\<close>

definition Analyzer_init :: "ref \<Rightarrow> pyval \<Rightarrow> func \<Rightarrow> (string \<times> pyval) list \<Rightarrow> ref io" where
  "Analyzer_init input_board item_id function inputs =
     alloc (OAnalyzer \<lparr>a_input_board = input_board, a_item_id = item_id,
                        a_function = function, a_inputs = inputs\<rparr>)"

text \<open>
  \<^verbatim>\<open>analyser.start()\<close>: the thread is handed to the scheduler, which will run
  \<^verbatim>\<open>Analyzer.manager\<close> on it.
\<close>

definition start :: "ref \<Rightarrow> unit io" where
  "start thread = emit (Start thread)"

text \<open>
  The body of the loop \<^verbatim>\<open>for current_item in items_json\<close> of
  \<^verbatim>\<open>InputBoard.manager\<close> (lines 460 to 478).
\<close>

fun manager_items :: "ref \<Rightarrow> pyval list \<Rightarrow> unit io" where
  "manager_items self [] = ret ()"
| "manager_items self (current_item # items_json) =
     bind (lift (py_getitem current_item ''column_values'')) (\<lambda>column_values.
     bind (lift (py_index column_values 0)) (\<lambda>first_column.
     bind (lift (py_getitem first_column ''value'')) (\<lambda>first_value.
       if \<not> py_truthy first_value then
         bind (get_board self) (\<lambda>b.
         bind (attr (b_board_id b)) (\<lambda>board_id.
         bind (lift (py_concat ''mutation { change_column_value (board_id: '' board_id)) (\<lambda>query1.
         bind (lift (py_getitem current_item ''id'')) (\<lambda>item_id.
         bind (lift (py_concat (query1 @ '', item_id: '') item_id)) (\<lambda>query2.
         bind (attr (b_status_column_id b)) (\<lambda>status_column_id.
         bind (lift (py_concat (query2 @ '', column_id: '' @ dq) status_column_id)) (\<lambda>query3.
         bind (post_request (b_work_space b)
                 (query3 @ dq @ '', value: '' @ dq @ ''{'' @ bs @ dq @ ''index'' @ bs @ dq
                    @ '' : 0}'' @ dq @ '') { id } }'')) (\<lambda>_.
         bind (get_board self) (\<lambda>b'.
         bind (lift (py_getitem current_item ''id'')) (\<lambda>item_id'.
         bind (attr (b_execution_dict b')) (\<lambda>execution_dict.
         bind (lift (py_getitem current_item ''group'')) (\<lambda>item_group.
         bind (lift (py_getitem item_group ''title'')) (\<lambda>group_title.
         bind (lift (execution_dict_lookup execution_dict group_title)) (\<lambda>function.
         bind (lift (py_getitem current_item ''name'')) (\<lambda>item_name.
         bind (Analyzer_init self item_id' function [(''item_name'', item_name)]) (\<lambda>analyser.
         bind (start analyser) (\<lambda>_.
         manager_items self items_json)))))))))))))))))
       else manager_items self items_json)))"

text \<open>One turn of the loop \<^verbatim>\<open>while True\<close> of \<^verbatim>\<open>InputBoard.manager\<close>.\<close>

definition manager_cycle :: "ref \<Rightarrow> unit io" where
  "manager_cycle self =
     bind (get_board self) (\<lambda>b.
     bind (attr (b_board_id b)) (\<lambda>board_id.
     bind (lift (py_concat ''{ boards (ids: '' board_id)) (\<lambda>query.
     bind (post_request (b_work_space b)
             (query @ '') {id items{id name group {id title} column_values {title value}}} }'')) (\<lambda>data.
     bind (lift (py_getitem data ''boards'')) (\<lambda>boards.
     bind (lift (py_index boards 0)) (\<lambda>board0.
     bind (lift (py_getitem board0 ''items'')) (\<lambda>items.
     bind (lift (py_iter items)) (\<lambda>items_json.
     bind (manager_items self items_json) (\<lambda>_.
     bind (get_board self) (\<lambda>b'.
     bind (attr (b_check_rate b')) (\<lambda>check_rate.
     sleep (PInt check_rate))))))))))))"

text \<open>
  \<^verbatim>\<open>InputBoard.manager\<close>. The loop has no exit but an exception; \<open>n\<close> bounds the
  turns observed, and None says that the loop is still running after them.
\<close>

fun InputBoard_manager :: "nat \<Rightarrow> ref \<Rightarrow> world \<Rightarrow> py_error option \<times> world" where
  "InputBoard_manager 0 self w = (None, w)"
| "InputBoard_manager (Suc n) self w =
     (case manager_cycle self w of
        (Inl e, w') \<Rightarrow> (Some e, w')
      | (Inr u, w') \<Rightarrow> InputBoard_manager n self w')"

text \<open>
  \<^verbatim>\<open>Analyzer.manager\<close>. \<open>call f kwargs\<close> is what \<^verbatim>\<open>f(**kwargs)\<close> does for the function
  named \<open>f\<close>: it may change the world, return or raise.
\<close>

definition Analyzer_manager ::
  "(func \<Rightarrow> (string \<times> pyval) list \<Rightarrow> pyval io) \<Rightarrow> ref \<Rightarrow> pyval io"
where
  "Analyzer_manager call self =
     bind (get_analyzer self) (\<lambda>a.
     bind (call (a_function a) (a_inputs a)) (\<lambda>_.
     bind (get_analyzer self) (\<lambda>a'.
     bind (get_board (a_input_board a')) (\<lambda>b.
     bind (attr (b_board_id b)) (\<lambda>board_id.
     bind (lift (py_concat ''mutation { change_column_value (board_id: '' board_id)) (\<lambda>query1.
     bind (lift (py_concat (query1 @ '', item_id: '') (a_item_id a'))) (\<lambda>query2.
     bind (attr (b_status_column_id b)) (\<lambda>status_column_id.
     bind (lift (py_concat (query2 @ '', column_id: '' @ dq) status_column_id)) (\<lambda>query3.
     bind (post_request (b_work_space b)
             (query3 @ dq @ '', value: '' @ dq @ ''{'' @ bs @ dq @ ''index'' @ bs @ dq
                @ '' : 1}'' @ dq @ '') { id } }'')) (\<lambda>_.
     ret PNone))))))))))"

section \<open>Vocabulary of the statements\<close>

text \<open>The lines echoed when \<^verbatim>\<open>print_api_protocol\<close> is set, none otherwise.\<close>

definition echo :: "bool \<Rightarrow> event list \<Rightarrow> event list" where
  "echo print_api_protocol evs = (if print_api_protocol then evs else [])"

text \<open>The queries posted, in order.\<close>

fun sends :: "event list \<Rightarrow> string list" where
  "sends [] = []"
| "sends (Send query # evs) = query # sends evs"
| "sends (ev # evs) = sends evs"

text \<open>
  The message of an error entry that is a dictionary whose \<^verbatim>\<open>'message'\<close> is a string
  without the rate-limit pattern; None for any other entry.
\<close>

definition plain_message :: "pyval \<Rightarrow> string option" where
  "plain_message error =
     (case error of
        PDict kvs \<Rightarrow>
          (case map_of kvs ''message'' of
             Some (PStr m) \<Rightarrow>
               if str_contains ''Complexity budget exhausted'' m then None else Some m
           | _ \<Rightarrow> None)
      | _ \<Rightarrow> None)"

text \<open>A workspace with no board, for the concrete runs.\<close>

definition ws0 :: workspace where
  "ws0 = \<lparr>ws_name = ''Main'', ws_token = ''token'', ws_boards_limit = 500,
           ws_print_api_protocol = False, ws_boards = [], ws_work_space_id = PNone\<rparr>"

text \<open>
  What hydration builds. The instance made for an entry of a payload, and the mapping
  after the entries were stored one by one at the addresses \<open>n\<close>, \<open>n + 1\<close>, ...
\<close>

definition column_of :: "ref \<Rightarrow> json_column \<Rightarrow> obj" where
  "column_of board column =
     OColumn \<lparr>c_board = board, c_title = jc_title column, c_description = jc_description column,
              c_column_type = jc_type column, c_column_id = Some (PStr (jc_id column))\<rparr>"

fun columns_after :: "nat \<Rightarrow> json_column list \<Rightarrow> (string \<times> ref) list \<Rightarrow> (string \<times> ref) list" where
  "columns_after n [] m = m"
| "columns_after n (column # json_columns) m =
     columns_after (Suc n) json_columns (AList.update (jc_title column) n m)"

definition group_of_entry :: "ref \<Rightarrow> json_group \<Rightarrow> obj" where
  "group_of_entry board g =
     OGroup \<lparr>g_board = board, g_title = jg_title g, g_items = [],
             g_group_id = Some (PStr (jg_id g))\<rparr>"

fun groups_after :: "nat \<Rightarrow> json_group list \<Rightarrow> (string \<times> ref) list \<Rightarrow> (string \<times> ref) list" where
  "groups_after n [] m = m"
| "groups_after n (g # json_groups) m =
     groups_after (Suc n) json_groups (AList.update (jg_title g) n m)"

fun columns_values_after :: "json_column_value list \<Rightarrow> (string \<times> pyval) list \<Rightarrow> (string \<times> pyval) list" where
  "columns_values_after [] m = m"
| "columns_values_after (v # vs) m = columns_values_after vs (AList.update (jv_id v) (jv_text v) m)"

definition item_of :: "json_item \<Rightarrow> item" where
  "item_of it =
     \<lparr>i_group = PStr (jg_title (ji_group it)), i_item_id = PStr (ji_id it), i_name = ji_name it,
      i_columns_values = columns_values_after (ji_column_values it) []\<rparr>"

fun items_after :: "string \<Rightarrow> nat \<Rightarrow> json_item list \<Rightarrow> (string \<times> ref) list \<Rightarrow> (string \<times> ref) list" where
  "items_after title n [] m = m"
| "items_after title n (it # json_items) m =
     items_after title (Suc n) json_items
       (if jg_title (ji_group it) = title then AList.update (ji_name it) n m else m)"

text \<open>A board of the workspace at address 0, without columns or groups, for the concrete runs.\<close>

definition board0 :: board where
  "board0 = \<lparr>b_work_space = 0, b_name = ''Tasks'', b_columns = [], b_groups = [],
              b_board_id = Some (PStr ''77''), b_status_column_id = None,
              b_execution_dict = None, b_check_rate = None\<rparr>"

text \<open>
  The payload of the scenario of the specification: 3 groups, 2 columns and 5 items
  spread over the groups.
\<close>

definition groups3 :: "json_group list" where
  "groups3 = [\<lparr>jg_id = ''g1'', jg_title = ''Todo''\<rparr>, \<lparr>jg_id = ''g2'', jg_title = ''Doing''\<rparr>,
              \<lparr>jg_id = ''g3'', jg_title = ''Done''\<rparr>]"

definition columns2 :: "json_column list" where
  "columns2 = [\<lparr>jc_id = ''status'', jc_title = ''Status'', jc_type = ''status'', jc_description = []\<rparr>,
               \<lparr>jc_id = ''date4'', jc_title = ''Date'', jc_type = ''date'', jc_description = ''due''\<rparr>]"

definition items5 :: "json_item list" where
  "items5 =
     [\<lparr>ji_id = ''11'', ji_name = ''write'', ji_group = \<lparr>jg_id = ''g1'', jg_title = ''Todo''\<rparr>,
       ji_column_values = [\<lparr>jv_id = ''status'', jv_text = PNone\<rparr>]\<rparr>,
      \<lparr>ji_id = ''12'', ji_name = ''review'', ji_group = \<lparr>jg_id = ''g1'', jg_title = ''Todo''\<rparr>,
       ji_column_values = [\<lparr>jv_id = ''status'', jv_text = PStr ''Stuck''\<rparr>]\<rparr>,
      \<lparr>ji_id = ''13'', ji_name = ''build'', ji_group = \<lparr>jg_id = ''g2'', jg_title = ''Doing''\<rparr>,
       ji_column_values = []\<rparr>,
      \<lparr>ji_id = ''14'', ji_name = ''plan'', ji_group = \<lparr>jg_id = ''g3'', jg_title = ''Done''\<rparr>,
       ji_column_values = [\<lparr>jv_id = ''date4'', jv_text = PStr ''2022-05-04''\<rparr>]\<rparr>,
      \<lparr>ji_id = ''15'', ji_name = ''ship'', ji_group = \<lparr>jg_id = ''g3'', jg_title = ''Done''\<rparr>,
       ji_column_values = []\<rparr>]"

text \<open>
  The query that sets the status column of an item to the label of an index, as
  \<^verbatim>\<open>InputBoard.manager\<close> (index 0) and \<^verbatim>\<open>Analyzer.manager\<close> (index 1) write it.
\<close>

definition change_status_query :: "string \<Rightarrow> string \<Rightarrow> string \<Rightarrow> string \<Rightarrow> string" where
  "change_status_query board_id item_id column_id index =
     ''mutation { change_column_value (board_id: '' @ board_id @ '', item_id: '' @ item_id
       @ '', column_id: '' @ dq @ column_id @ dq @ '', value: '' @ dq @ ''{'' @ bs @ dq
       @ ''index'' @ bs @ dq @ '' : '' @ index @ ''}'' @ dq @ '') { id } }''"

text \<open>
  An item of a poll, read as the dispatcher reads it: the value of its first column,
  its id, the title of its group, its name.
\<close>

definition first_value :: "pyval \<Rightarrow> py_error + pyval" where
  "first_value current_item =
     (case py_getitem current_item ''column_values'' of
        Inl e \<Rightarrow> Inl e
      | Inr column_values \<Rightarrow>
          (case py_index column_values 0 of
             Inl e \<Rightarrow> Inl e
           | Inr first_column \<Rightarrow> py_getitem first_column ''value''))"




definition item_name :: "pyval \<Rightarrow> pyval option" where
  "item_name current_item =
     (case py_getitem current_item ''name'' of Inr n \<Rightarrow> Some n | _ \<Rightarrow> None)"






text \<open>
  The events of one \<^verbatim>\<open>post_request\<close> whose answer has no \<^verbatim>\<open>'errors'\<close>: the echo lines
  around the post when \<^verbatim>\<open>print_api_protocol\<close> is set.
\<close>

definition post_events :: "bool \<Rightarrow> string \<Rightarrow> pyval \<Rightarrow> event list" where
  "post_events p query response =
     echo p [Print [PStr ''sending:'', PStr query]]
     @ [Send query]
     @ echo p [Print [PStr ''received:'', response], Print []]
     @ (case py_getitem response ''data'' of
          Inr data \<Rightarrow> []
        | Inl e \<Rightarrow> echo p [Print [PStr ''untracked error in post request:''],
                           Print [PStr ''query:'', PStr query],
                           Print [PStr ''error: '', response], Print []])"



text \<open>
  The snapshot of the scenario of the specification: an input board with one registered
  group, polled with 4 items of which 2 have an empty first column value.
\<close>

definition input_board0 :: board where
  "input_board0 =
     \<lparr>b_work_space = 0, b_name = ''Input'', b_columns = [], b_groups = [],
      b_board_id = Some (PStr ''77''), b_status_column_id = Some (PStr ''status''),
      b_execution_dict = Some [(''Input Group 1'', Func ''input_group_handle_new_item'')],
      b_check_rate = Some 1\<rparr>"




definition changed :: "string \<Rightarrow> pyval" where
  "changed item_id = PDict [(''data'', PDict [(''change_column_value'', PDict [(''id'', PStr item_id)])])]"

text \<open>
  The Analyzer of the scenario of the specification, spawned for the item named
  \<^verbatim>\<open>hello\<close>, and two handlers: one that prints its keyword arguments and returns, one
  that raises.
\<close>

definition analyzer0 :: analyzer where
  "analyzer0 = \<lparr>a_input_board = 1, a_item_id = PStr ''11'',
                 a_function = Func ''input_group_handle_new_item'',
                 a_inputs = [(''item_name'', PStr ''hello'')]\<rparr>"

definition printing_handler :: "func \<Rightarrow> (string \<times> pyval) list \<Rightarrow> pyval io" where
  "printing_handler f kwargs = bind (py_print (map snd kwargs)) (\<lambda>_. ret PNone)"

definition raising_handler :: "func \<Rightarrow> (string \<times> pyval) list \<Rightarrow> pyval io" where
  "raising_handler f kwargs = raise ValueError"

text \<open>
  The payload of the creation path, in the words of the specification. Only the pairs
  whose value is a string or a dict are serialized; a string is put between two escaped
  quotes; a dict is put as \<open>dumps\<close> serializes it. \<open>ids\<close> gives the id of the column of a
  title.
\<close>

fun str_or_dict :: "pyval \<Rightarrow> bool" where
  "str_or_dict (PStr s) = True"
| "str_or_dict (PDict d) = True"
| "str_or_dict v = False"

fun value_text :: "(pyval \<Rightarrow> string) \<Rightarrow> pyval \<Rightarrow> string" where
  "value_text dumps (PStr s) = bs @ dq @ s @ bs @ dq"
| "value_text dumps v = dumps v"

definition entry_text :: "(string \<Rightarrow> string) \<Rightarrow> (pyval \<Rightarrow> string) \<Rightarrow> string \<times> pyval \<Rightarrow> string" where
  "entry_text ids dumps e = bs @ dq @ ids (fst e) @ bs @ dq @ '': '' @ value_text dumps (snd e)"

definition payload :: "(string \<Rightarrow> string) \<Rightarrow> (pyval \<Rightarrow> string) \<Rightarrow> (string \<times> pyval) list \<Rightarrow> string" where
  "payload ids dumps columns_values =
     ''{'' @ join '', '' (map (entry_text ids dumps)
                            (filter (\<lambda>e. str_or_dict (snd e)) columns_values)) @ ''}''"

definition create_item_query :: "string \<Rightarrow> string \<Rightarrow> string \<Rightarrow> string \<Rightarrow> string" where
  "create_item_query board_id group_id name column_values =
     ''mutation {create_item (board_id: '' @ board_id @ '', group_id: '' @ dq @ group_id @ dq
       @ '', item_name: '' @ dq @ name @ dq @ '', column_values: '' @ dq @ column_values @ dq
       @ '') { id } }''"

text \<open>The answer to a creation, and the item the creation path leaves in the store.\<close>

definition created :: "string \<Rightarrow> pyval" where
  "created item_id = PDict [(''data'', PDict [(''create_item'', PDict [(''id'', PStr item_id)])])]"

definition new_item :: "pyval \<Rightarrow> string \<Rightarrow> pyval \<Rightarrow> obj" where
  "new_item grp name item_id =
     OItem \<lparr>i_group = grp, i_item_id = item_id, i_name = name, i_columns_values = []\<rparr>"

text \<open>
  A store with a workspace, a board of one column titled \<^verbatim>\<open>Status\<close> and one group,
  the answer to a creation pending; three pairs to serialize, the second neither a
  string nor a dict and its title not a column of the board.
\<close>

definition creation_world :: world where
  "creation_world =
     \<lparr>heap = [OWorkSpace ws0,
              OBoard (board0\<lparr>b_columns := [(''Status'', 2)], b_groups := [(''Group 1'', 3)]\<rparr>),
              OColumn \<lparr>c_board = 1, c_title = ''Status'', c_description = [],
                       c_column_type = ''text'', c_column_id = Some (PStr ''status'')\<rparr>,
              OGroup \<lparr>g_board = 1, g_title = ''Group 1'', g_items = [],
                      g_group_id = Some (PStr ''g1'')\<rparr>],
      events = [], pending = [created ''99'']\<rparr>"

definition columns_values3 :: "(string \<times> pyval) list" where
  "columns_values3 =
     [(''Status'', PStr ''x''), (''Count'', PInt 3), (''Status'', PDict [(''a'', PStr ''b'')])]"

text \<open>
  Two columns with one title constructed on a board, and the board read afterwards. The
  remote service answers each creation with the id of the new column.
\<close>

definition created_column :: "string \<Rightarrow> pyval" where
  "created_column column_id =
     PDict [(''data'', PDict [(''create_column'', PDict [(''id'', PStr column_id)])])]"

definition two_columns_world :: world where
  "two_columns_world =
     \<lparr>heap = [OWorkSpace ws0, OBoard board0], events = [],
      pending = [created_column ''status'', created_column ''status4'']\<rparr>"

definition construct_two_columns :: "board io" where
  "construct_two_columns =
     bind (Column_init 1 ''Status'' [] ''status'' PNone) (\<lambda>column1.
     bind (Column_init 1 ''Status'' [] ''status'' PNone) (\<lambda>column2.
     get_board 1))"

text \<open>
  \<^verbatim>\<open>Board(ws, 'Tasks', board_id='77', json_groups=..., json_columns=..., json_items=...)\<close>,
  the call of \<^verbatim>\<open>update_boards_in_ws\<close>, in a store that holds the workspace alone; a group
  and items for it.
\<close>

definition hydrate :: "json_group list \<Rightarrow> json_column list \<Rightarrow> json_item list \<Rightarrow> ref io" where
  "hydrate json_groups json_columns json_items =
     Board_init (\<lambda>v. ''None'') 0 ''Tasks'' False (Some json_groups) (Some json_columns)
       (Some json_items) (PStr ''77'')"

definition workspace_world :: world where
  "workspace_world = \<lparr>heap = [OWorkSpace ws0], events = [], pending = []\<rparr>"

definition todo :: json_group where
  "todo = \<lparr>jg_id = ''g1'', jg_title = ''Todo''\<rparr>"

definition todo_item :: "string \<Rightarrow> string \<Rightarrow> json_item" where
  "todo_item item_id name =
     \<lparr>ji_id = item_id, ji_name = name, ji_group = todo, ji_column_values = []\<rparr>"

text \<open>The answers to the creation of a board and to the query of its groups.\<close>

definition created_board :: "string \<Rightarrow> pyval" where
  "created_board board_id =
     PDict [(''data'', PDict [(''create_board'', PDict [(''id'', PStr board_id)])])]"

definition no_groups :: "string \<Rightarrow> pyval" where
  "no_groups board_id =
     PDict [(''data'', PDict [(''boards'',
       PList [PDict [(''id'', PStr board_id), (''groups'', PList [])]])])]"





section \<open>Properties of the request executor\<close>

lemma world_update_swap:
  "w\<lparr>pending := ps, events := evs\<rparr> = w\<lparr>events := evs, pending := ps\<rparr>"
  by (cases w) simp

lemma sends_append: "sends (xs @ ys) = sends xs @ sends ys"
  by (induction xs rule: sends.induct) simp_all

lemma sends_echo_print:
  "sends (echo p [Print a]) = []"
  "sends (echo p [Print a, Print b]) = []"
  "sends (echo p [Print a, Print b, Print c, Print d]) = []"
  by (simp_all add: echo_def)

lemma py_getitem_contains: "py_getitem v key = Inr x \<Longrightarrow> py_contains key v = Inr True"
  by (cases v) (force split: option.splits dest: map_of_SomeD)+

lemma post_request_send_eq:
  "pending w = response # rest \<Longrightarrow>
   post_request_send p query w =
     (Inr response,
      w\<lparr>events := events w @ echo p [Print [PStr ''sending:'', PStr query]] @ [Send query],
         pending := rest\<rparr>)"
  by (simp add: post_request_send_def bind_def if_then_def py_print_def emit_def ret_def
      requests_post_def echo_def)

lemma handle_response_errors_none:
  "py_contains ''errors'' response = Inr False \<Longrightarrow>
   handle_response_errors response w = (Inr True, w)"
  by (simp add: handle_response_errors_def bind_def lift_def ret_def)

lemma post_request_answer_eq:
  "post_request_answer p query response w =
     (Inr (case py_getitem response ''data'' of Inr data \<Rightarrow> data | Inl e \<Rightarrow> PNone),
      w\<lparr>events := events w @ echo p [Print [PStr ''received:'', response], Print []]
         @ (case py_getitem response ''data'' of
              Inr data \<Rightarrow> []
            | Inl e \<Rightarrow> echo p [Print [PStr ''untracked error in post request:''],
                               Print [PStr ''query:'', PStr query],
                               Print [PStr ''error: '', response], Print []])\<rparr>)"
  by (simp add: post_request_answer_def bind_def if_then_def py_print_def emit_def ret_def echo_def
      split: sum.splits)

text \<open>
  A response without \<^verbatim>\<open>'errors'\<close>: one post, one answer consumed, and the caller
  receives \<^verbatim>\<open>response['data']\<close>, or None when that lookup fails.
\<close>

lemma post_request_no_errors:
  assumes "get_workspace self w = (Inr ws, w)"
    and "pending w = response # rest"
    and "py_contains ''errors'' response = Inr False"
  shows "post_request self query w =
     (Inr (case py_getitem response ''data'' of Inr data \<Rightarrow> data | Inl e \<Rightarrow> PNone),
      w\<lparr>events := events w
           @ echo (ws_print_api_protocol ws) [Print [PStr ''sending:'', PStr query]]
           @ [Send query]
           @ echo (ws_print_api_protocol ws) [Print [PStr ''received:'', response], Print []]
           @ (case py_getitem response ''data'' of
                Inr data \<Rightarrow> []
              | Inl e \<Rightarrow> echo (ws_print_api_protocol ws)
                         [Print [PStr ''untracked error in post request:''],
                          Print [PStr ''query:'', PStr query],
                          Print [PStr ''error: '', response], Print []]),
         pending := rest\<rparr>)"
  using assms
  by (subst post_request.simps)
     (simp add: post_request_send_eq handle_response_errors_none post_request_answer_eq)

lemma ws0_print: "ws_print_api_protocol ws0 = False"
  by (simp add: ws0_def)

lemma ws0_boards: "ws_boards ws0 = []"
  by (simp add: ws0_def)

lemma get_workspace_ws0: "get_workspace 0 \<lparr>heap = [OWorkSpace ws0], events = evs, pending = ps\<rparr>
    = (Inr ws0, \<lparr>heap = [OWorkSpace ws0], events = evs, pending = ps\<rparr>)"
  by (simp add: get_workspace_def deref_def)

text \<open>
  C3. A response with no \<^verbatim>\<open>'errors'\<close> and a \<^verbatim>\<open>'data'\<close> payload makes \<^verbatim>\<open>post_request\<close>
  return exactly that payload; with no \<^verbatim>\<open>'errors'\<close> and no \<^verbatim>\<open>'data'\<close> it returns None.
  In both cases the query is posted once and one answer is consumed: there is no
  retry.
\<close>

theorem post_request_without_error_indicator:
  assumes "get_workspace self w = (Inr ws, w)"
    and "pending w = response # rest"
    and "py_contains ''errors'' response = Inr False"
  shows "(\<forall>data. py_getitem response ''data'' = Inr data \<longrightarrow>
            fst (post_request self query w) = Inr data)
       \<and> (\<forall>e. py_getitem response ''data'' = Inl e \<longrightarrow>
            fst (post_request self query w) = Inr PNone)
       \<and> sends (events (snd (post_request self query w))) = sends (events w) @ [query]
       \<and> pending (snd (post_request self query w)) = rest"
  by (simp add: post_request_no_errors [OF assms] sends_append sends_echo_print
      split: sum.splits)

theorem post_request_without_error_indicator_witness:
  "fst (post_request 0 ''{ boards { id } }''
          \<lparr>heap = [OWorkSpace ws0], events = [], pending = [PDict []]\<rparr>) = Inr PNone
   \<and> sends (events (snd (post_request 0 ''{ boards { id } }''
          \<lparr>heap = [OWorkSpace ws0], events = [], pending = [PDict []]\<rparr>)))
       = [''{ boards { id } }'']
   \<and> pending (snd (post_request 0 ''{ boards { id } }''
          \<lparr>heap = [OWorkSpace ws0], events = [], pending = [PDict []]\<rparr>)) = []"
  using post_request_without_error_indicator
    [of 0 "\<lparr>heap = [OWorkSpace ws0], events = [], pending = [PDict []]\<rparr>" ws0 "PDict []" "[]"
      "''{ boards { id } }''"]
  by (simp add: get_workspace_ws0)

subsection \<open>Errors that are not rate limits\<close>

lemma handle_response_errors_loop_plain_step:
  assumes "plain_message error = Some m"
  shows "handle_response_errors_loop (error # errors) w =
         handle_response_errors_loop errors (w\<lparr>events := events w @ [WriteErrors m]\<rparr>)"
proof -
  from assms obtain kvs where e: "error = PDict kvs"
    and m: "map_of kvs ''message'' = Some (PStr m)"
    and n: "\<not> str_contains ''Complexity budget exhausted'' m"
    by (auto simp: plain_message_def split: pyval.splits option.splits if_splits)
  from m have "py_contains ''message'' error = Inr True"
    "py_getitem error ''message'' = Inr (PStr m)"
    using py_getitem_contains [of error "''message''" "PStr m"] by (simp_all add: e)
  then show ?thesis using n
    by (simp add: bind_def lift_def emit_def)
qed

lemma handle_response_errors_loop_plain:
  "\<forall>e \<in> set pre. plain_message e \<noteq> None \<Longrightarrow>
   handle_response_errors_loop (pre @ post) w =
   handle_response_errors_loop post
     (w\<lparr>events := events w @ map WriteErrors (List.map_filter plain_message pre)\<rparr>)"
proof (induction pre arbitrary: w)
  case Nil
  then show ?case by simp
next
  case (Cons e pre)
  then obtain m where m: "plain_message e = Some m" by auto
  show ?case
    using Cons.prems Cons.IH [of "w\<lparr>events := events w @ [WriteErrors m]\<rparr>"]
    by (simp add: handle_response_errors_loop_plain_step [OF m] m
        del: handle_response_errors_loop.simps)
qed

lemma handle_response_errors_loop_False:
  "handle_response_errors_loop errors w = (Inr ok, w') \<Longrightarrow> \<not> ok"
proof (induction errors arbitrary: w)
  case Nil
  then show ?case by (simp add: ret_def)
next
  case (Cons error errors)
  then show ?case
    by (auto simp: bind_def lift_def ret_def split: sum.splits if_splits prod.splits)
qed

lemma post_request_errors:
  assumes "get_workspace self w = (Inr ws, w)"
    and "pending w = response # rest"
    and "py_getitem response ''errors'' = Inr (PList errors)"
  shows "post_request self query w =
     (case handle_response_errors_loop errors
             (w\<lparr>events := events w
                    @ echo (ws_print_api_protocol ws) [Print [PStr ''sending:'', PStr query]]
                    @ [Send query],
                 pending := rest\<rparr>) of
        (Inl e, w2) \<Rightarrow> (Inl e, w2)
      | (Inr ok, w2) \<Rightarrow> post_request self query w2)"
proof -
  have c: "py_contains ''errors'' response = Inr True"
    using assms(3) by (rule py_getitem_contains)
  show ?thesis
    using assms c
    by (subst post_request.simps)
       (auto simp: post_request_send_eq handle_response_errors_def bind_def lift_def
          split: sum.splits prod.splits dest: handle_response_errors_loop_False)
qed

text \<open>
  C2, as the code has it. The scan of the errors appends the message of every entry of
  a leading run \<open>pre\<close> of errors that are not rate limits, verbatim and in order, and
  goes on with the entries \<open>post\<close> that follow; when that part of the scan ends without
  an exception the same query is posted again by the recursive call. When the run is
  the whole list (\<open>post = []\<close>) the recursive call follows the appends directly.
\<close>

theorem post_request_plain_errors:
  assumes "get_workspace self w = (Inr ws, w)"
    and "pending w = response # rest"
    and "py_getitem response ''errors'' = Inr (PList (pre @ post))"
    and "\<forall>e \<in> set pre. plain_message e \<noteq> None"
  shows "post_request self query w =
     (case handle_response_errors_loop post
             (w\<lparr>events := events w
                    @ echo (ws_print_api_protocol ws) [Print [PStr ''sending:'', PStr query]]
                    @ [Send query]
                    @ map WriteErrors (List.map_filter plain_message pre),
                 pending := rest\<rparr>) of
        (Inl e, w2) \<Rightarrow> (Inl e, w2)
      | (Inr ok, w2) \<Rightarrow> post_request self query w2)
   \<and> (post = [] \<longrightarrow>
     post_request self query w =
     post_request self query
       (w\<lparr>events := events w
              @ echo (ws_print_api_protocol ws) [Print [PStr ''sending:'', PStr query]]
              @ [Send query]
              @ map WriteErrors (List.map_filter plain_message pre),
           pending := rest\<rparr>))"
proof -
  have scan: "handle_response_errors_loop (pre @ post)
          (w\<lparr>events := events w
                 @ echo (ws_print_api_protocol ws) [Print [PStr ''sending:'', PStr query]]
                 @ [Send query],
              pending := rest\<rparr>)
      = handle_response_errors_loop post
          (w\<lparr>events := events w
                 @ echo (ws_print_api_protocol ws) [Print [PStr ''sending:'', PStr query]]
                 @ [Send query]
                 @ map WriteErrors (List.map_filter plain_message pre),
              pending := rest\<rparr>)"
    by (simp add: handle_response_errors_loop_plain [OF assms(4)] world_update_swap)
  have g: "post_request self query w =
     (case handle_response_errors_loop post
             (w\<lparr>events := events w
                    @ echo (ws_print_api_protocol ws) [Print [PStr ''sending:'', PStr query]]
                    @ [Send query]
                    @ map WriteErrors (List.map_filter plain_message pre),
                 pending := rest\<rparr>) of
        (Inl e, w2) \<Rightarrow> (Inl e, w2)
      | (Inr ok, w2) \<Rightarrow> post_request self query w2)"
    using scan by (simp only: post_request_errors [OF assms(1-3)])
  show ?thesis
  proof (intro conjI impI)
    show "post_request self query w =
       (case handle_response_errors_loop post
               (w\<lparr>events := events w
                      @ echo (ws_print_api_protocol ws) [Print [PStr ''sending:'', PStr query]]
                      @ [Send query]
                      @ map WriteErrors (List.map_filter plain_message pre),
                   pending := rest\<rparr>) of
          (Inl e, w2) \<Rightarrow> (Inl e, w2)
        | (Inr ok, w2) \<Rightarrow> post_request self query w2)"
      by (rule g)
  next
    assume "post = []"
    then show "post_request self query w =
       post_request self query
         (w\<lparr>events := events w
                @ echo (ws_print_api_protocol ws) [Print [PStr ''sending:'', PStr query]]
                @ [Send query]
                @ map WriteErrors (List.map_filter plain_message pre),
             pending := rest\<rparr>)"
      by (simp add: g ret_def)
  qed
qed

theorem post_request_plain_errors_witness:
  "post_request 0 ''{ boards { id } }''
     \<lparr>heap = [OWorkSpace ws0], events = [],
      pending = [PDict [(''errors'', PList [PDict [(''message'', PStr ''Field does not exist'')]])],
                 PDict [(''data'', PDict [])]]\<rparr>
   = post_request 0 ''{ boards { id } }''
     \<lparr>heap = [OWorkSpace ws0],
      events = [Send ''{ boards { id } }'', WriteErrors ''Field does not exist''],
      pending = [PDict [(''data'', PDict [])]]\<rparr>"
  using post_request_plain_errors
    [of 0 "\<lparr>heap = [OWorkSpace ws0], events = [],
             pending = [PDict [(''errors'', PList [PDict [(''message'', PStr ''Field does not exist'')]])],
                        PDict [(''data'', PDict [])]]\<rparr>"
        ws0
        "PDict [(''errors'', PList [PDict [(''message'', PStr ''Field does not exist'')]])]"
        "[PDict [(''data'', PDict [])]]"
        "[PDict [(''message'', PStr ''Field does not exist'')]]" "[]" "''{ boards { id } }''",
      THEN conjunct2]
  by (simp add: get_workspace_ws0 plain_message_def ws0_print echo_def)

text \<open>
  The claim as it is written fails: the second error of this response is not a rate
  limit, and its message is never appended, because the scan returns at the rate-limit
  error before it (line 188).
\<close>

theorem post_request_error_after_rate_limit_not_written:
  "post_request 0 ''{ boards { id } }''
     \<lparr>heap = [OWorkSpace ws0], events = [],
      pending = [PDict [(''errors'',
                   PList [PDict [(''message'', PStr ''Complexity budget exhausted'')],
                          PDict [(''message'', PStr ''Field does not exist'')]])],
                 PDict [(''data'', PDict [])]]\<rparr>
   = (Inr (PDict []),
      \<lparr>heap = [OWorkSpace ws0],
       events = [Send ''{ boards { id } }'', Sleep 5, Send ''{ boards { id } }''],
       pending = []\<rparr>)"
  by code_simp

subsection \<open>Rate limits\<close>

lemma startswith_append: "startswith (sep @ rest) sep"
  by (induction sep) simp_all

lemma str_contains_startswith: "startswith s sep \<Longrightarrow> str_contains sep s"
  by (cases s) (auto elim: startswith.elims)

lemma str_contains_append: "str_contains sep (pre @ sep @ rest)"
  by (induction pre) (simp_all add: str_contains_startswith startswith_append)

lemma str_split_from_first:
  assumes "sep \<noteq> []"
    and "\<forall>i<length pre. \<not> startswith (drop i (pre @ sep @ rest)) sep"
  shows "str_split_from sep acc (pre @ sep @ rest) = (acc @ pre) # str_split_from sep [] rest"
  using assms(2)
proof (induction pre arbitrary: acc)
  case Nil
  show ?case
    using assms(1) by (subst str_split_from.simps) (simp add: startswith_append)
next
  case (Cons p pre)
  from Cons.prems have "\<not> startswith (p # pre @ sep @ rest) sep"
    by (metis append_Cons drop0 length_greater_0_conv list.discI)
  moreover from Cons.prems have "\<forall>i<length pre. \<not> startswith (drop i (pre @ sep @ rest)) sep"
    by (metis Suc_less_eq append_Cons drop_Suc_Cons length_Cons)
  ultimately show ?case
    using Cons.IH [of "acc @ [p]"] by (subst str_split_from.simps) simp
qed

lemma str_split_from_head: "\<exists>t ps. str_split_from sep acc s = (acc @ t) # ps"
proof (induction sep acc s rule: str_split_from.induct)
  case (1 sep acc s)
  show ?case
  proof (cases "s = []")
    case True
    then show ?thesis by (subst str_split_from.simps) simp
  next
    case False
    show ?thesis
    proof (cases "sep \<noteq> [] \<and> startswith s sep")
      case True
      with False show ?thesis by (subst str_split_from.simps) simp
    next
      case b: False
      with False "1.IH"(2) obtain t ps where
        "str_split_from sep (acc @ [hd s]) (tl s) = ((acc @ [hd s]) @ t) # ps"
        by blast
      with False b show ?thesis
        by (subst str_split_from.simps) auto
    qed
  qed
qed

lemma seconds_to_rest_after_reset_in:
  assumes first: "\<forall>i<length pre. \<not> startswith (drop i (pre @ ''reset in '' @ c # rest)) ''reset in ''"
    and c: "\<not> startswith (c # rest) ''reset in ''"
  shows "seconds_to_rest (PStr (pre @ ''reset in '' @ c # rest)) =
     (if char_isdecimal c then Inr (PInt (digit_value c + 1))
      else if char_isdigit c then Inl ValueError
      else Inr (PStr [c]))"
proof -
  obtain t ps where h: "str_split_from ''reset in '' [c] rest = ([c] @ t) # ps"
    using str_split_from_head by blast
  have "str_split_from ''reset in '' [] (c # rest) = (c # t) # ps"
    using c h by (subst str_split_from.simps) simp
  then have parts: "str_split_from ''reset in '' [] (pre @ ''reset in '' @ c # rest) = pre # (c # t) # ps"
    using str_split_from_first [of "''reset in ''" pre "c # rest" "[]"] first by simp
  have "str_contains ''reset in '' (pre @ ''reset in '' @ c # rest)"
    by (rule str_contains_append)
  then show ?thesis
    using parts
    by (simp add: seconds_to_rest_def str_split_def isdigit_def py_int_def char_isdigit_def
        del: str_contains.simps)
qed

lemma seconds_to_rest_default:
  "\<not> str_contains ''reset in '' m \<Longrightarrow> seconds_to_rest (PStr m) = Inr (PInt 5)"
  by (simp add: seconds_to_rest_def)

lemma handle_response_errors_loop_rate_limit:
  assumes "py_getitem error ''message'' = Inr (PStr m)"
    and "str_contains ''Complexity budget exhausted'' m"
  shows "handle_response_errors_loop (error # errors) w =
     (case seconds_to_rest (PStr m) of
        Inl e \<Rightarrow> (Inl e, w)
      | Inr seconds \<Rightarrow>
          (case sleep seconds w of
             (Inl e, w') \<Rightarrow> (Inl e, w')
           | (Inr u, w') \<Rightarrow> (Inr False, w')))"
  using assms py_getitem_contains [OF assms(1)]
  by (simp add: bind_def lift_def ret_def split: sum.splits prod.splits)

text \<open>
  The wait of a rate-limit error. Without \<^verbatim>\<open>'reset in '\<close> in the message it is 5
  seconds; with a decimal digit \<open>c\<close> right after the first \<^verbatim>\<open>'reset in '\<close> it is that digit
  plus 1; with any other character there that \<^verbatim>\<open>isdigit\<close> rejects, \<^verbatim>\<open>sleep\<close> receives
  the character itself and raises TypeError: no wait, and the exception leaves
  \<^verbatim>\<open>handle_response_errors\<close>.
\<close>

lemma rate_limit_wait:
  assumes "py_getitem error ''message'' = Inr (PStr m)"
    and "str_contains ''Complexity budget exhausted'' m"
  shows "\<not> str_contains ''reset in '' m \<Longrightarrow>
           handle_response_errors_loop (error # errors) w
             = (Inr False, w\<lparr>events := events w @ [Sleep 5]\<rparr>)"
    and "m = pre @ ''reset in '' @ c # rest \<Longrightarrow>
         \<forall>i<length pre. \<not> startswith (drop i (pre @ ''reset in '' @ c # rest)) ''reset in '' \<Longrightarrow>
         char_isdecimal c \<Longrightarrow>
           handle_response_errors_loop (error # errors) w
             = (Inr False, w\<lparr>events := events w @ [Sleep (digit_value c + 1)]\<rparr>)"
    and "m = pre @ ''reset in '' @ c # rest \<Longrightarrow>
         \<forall>i<length pre. \<not> startswith (drop i (pre @ ''reset in '' @ c # rest)) ''reset in '' \<Longrightarrow>
         \<not> char_isdigit c \<Longrightarrow> \<not> startswith (c # rest) ''reset in '' \<Longrightarrow>
           handle_response_errors_loop (error # errors) w = (Inl TypeError, w)"
proof -
  note step = handle_response_errors_loop_rate_limit [OF assms]
  show "handle_response_errors_loop (error # errors) w
          = (Inr False, w\<lparr>events := events w @ [Sleep 5]\<rparr>)"
    if "\<not> str_contains ''reset in '' m"
    using that
    by (simp add: step seconds_to_rest_default emit_def sleep_max_def
        del: handle_response_errors_loop.simps)
  show "handle_response_errors_loop (error # errors) w
          = (Inr False, w\<lparr>events := events w @ [Sleep (digit_value c + 1)]\<rparr>)"
    if m: "m = pre @ ''reset in '' @ c # rest"
      and f: "\<forall>i<length pre. \<not> startswith (drop i (pre @ ''reset in '' @ c # rest)) ''reset in ''"
      and d: "char_isdecimal c"
  proof -
    from d have "c \<noteq> CHR ''r''" "0 \<le> digit_value c" "digit_value c + 1 \<le> sleep_max"
      by (auto simp: char_isdecimal_def digit_value_def sleep_max_def)
    then have "\<not> startswith (c # rest) ''reset in ''" by simp
    then have "seconds_to_rest (PStr m) = Inr (PInt (digit_value c + 1))"
      using seconds_to_rest_after_reset_in [OF f] d by (simp add: m)
    then show ?thesis
      using \<open>0 \<le> digit_value c\<close> \<open>digit_value c + 1 \<le> sleep_max\<close>
      by (simp add: step emit_def del: handle_response_errors_loop.simps)
  qed
  show "handle_response_errors_loop (error # errors) w = (Inl TypeError, w)"
    if m: "m = pre @ ''reset in '' @ c # rest"
      and f: "\<forall>i<length pre. \<not> startswith (drop i (pre @ ''reset in '' @ c # rest)) ''reset in ''"
      and d: "\<not> char_isdigit c" and r: "\<not> startswith (c # rest) ''reset in ''"
  proof -
    from d have "\<not> char_isdecimal c" by (simp add: char_isdigit_def)
    then have "seconds_to_rest (PStr m) = Inr (PStr [c])"
      using seconds_to_rest_after_reset_in [OF f r] d by (simp add: m)
    then show ?thesis
      by (simp add: step raise_def del: handle_response_errors_loop.simps)
  qed
qed

text \<open>
  C1. The claim fails on the code for a rate-limit message whose \<^verbatim>\<open>'reset in '\<close> is
  not followed by a digit: \<^verbatim>\<open>seconds_to_rest\<close> is then the character \<^verbatim>\<open>'a'\<close>, not the
  default 5 that line 168 announces, and \<^verbatim>\<open>sleep('a')\<close> raises TypeError. Nothing is
  slept and the exception goes to the caller of \<^verbatim>\<open>post_request\<close>.
\<close>

theorem handle_response_errors_reset_in_without_digit:
  "seconds_to_rest (PStr ''Complexity budget exhausted, reset in a minute'') = Inr (PStr ''a'')
   \<and> handle_response_errors
       (PDict [(''errors'', PList [PDict [(''message'',
          PStr ''Complexity budget exhausted, reset in a minute'')]])])
       \<lparr>heap = [OWorkSpace ws0], events = [], pending = []\<rparr>
     = (Inl TypeError, \<lparr>heap = [OWorkSpace ws0], events = [], pending = []\<rparr>)
   \<and> post_request 0 ''{ boards { id } }''
       \<lparr>heap = [OWorkSpace ws0], events = [],
        pending = [PDict [(''errors'', PList [PDict [(''message'',
                     PStr ''Complexity budget exhausted, reset in a minute'')]])],
                   PDict [(''data'', PDict [])]]\<rparr>
     = (Inl TypeError,
        \<lparr>heap = [OWorkSpace ws0], events = [Send ''{ boards { id } }''],
         pending = [PDict [(''data'', PDict [])]]\<rparr>)"
  by code_simp

section \<open>Properties of the workspace\<close>

text \<open>
  C4. For a workspace whose \<^verbatim>\<open>boards\<close> mapping is empty, \<^verbatim>\<open>get_ws_id\<close> prints its
  message and returns None: nothing is posted, no answer of the remote service is
  consumed, the store is unchanged, and no workspace id is resolved.
\<close>

theorem get_ws_id_empty_workspace:
  assumes "get_workspace self w = (Inr ws, w)"
    and "ws_boards ws = []"
  shows "get_ws_id self w =
           (Inr PNone,
            w\<lparr>events := events w @
               [Print [PStr (''Please create at least one board, can'' @ [CHR 0x27]
                             @ ''t locate an empty workspace.'')]]\<rparr>)
       \<and> sends (events (snd (get_ws_id self w))) = sends (events w)
       \<and> pending (snd (get_ws_id self w)) = pending w
       \<and> heap (snd (get_ws_id self w)) = heap w"
  using assms
  by (simp add: get_ws_id_def bind_def py_print_def emit_def ret_def sends_append)

theorem get_ws_id_empty_workspace_witness:
  "get_ws_id 0 \<lparr>heap = [OWorkSpace ws0], events = [], pending = [PDict [(''data'', PDict [])]]\<rparr>
     = (Inr PNone,
        \<lparr>heap = [OWorkSpace ws0],
         events = [Print [PStr (''Please create at least one board, can'' @ [CHR 0x27]
                                @ ''t locate an empty workspace.'')]],
         pending = [PDict [(''data'', PDict [])]]\<rparr>)"
  using get_ws_id_empty_workspace
    [of 0 "\<lparr>heap = [OWorkSpace ws0], events = [], pending = [PDict [(''data'', PDict [])]]\<rparr>" ws0]
  by (simp add: get_workspace_ws0 ws0_boards)

section \<open>Properties of the entities\<close>

subsection \<open>The store\<close>

lemma deref_iff: "deref r w = Some ob \<longleftrightarrow> r < length (heap w) \<and> heap w ! r = ob"
  by (auto simp: deref_def)

lemma get_board_at: "deref self w = Some (OBoard b) \<Longrightarrow> get_board self w = (Inr b, w)"
  by (simp add: get_board_def)

lemma get_group_at: "deref r w = Some (OGroup g) \<Longrightarrow> get_group r w = (Inr g, w)"
  by (simp add: get_group_def)

lemma get_column_at: "deref r w = Some (OColumn c) \<Longrightarrow> get_column r w = (Inr c, w)"
  by (simp add: get_column_def)

lemma get_item_at: "deref r w = Some (OItem i) \<Longrightarrow> get_item r w = (Inr i, w)"
  by (simp add: get_item_def)

lemma update_board_at:
  "deref self w = Some (OBoard b) \<Longrightarrow>
   update_board self f w = (Inr (), w\<lparr>heap := (heap w)[self := OBoard (f b)]\<rparr>)"
  by (simp add: update_board_def bind_def get_board_at store_def)

lemma update_group_at:
  "deref r w = Some (OGroup g) \<Longrightarrow>
   update_group r f w = (Inr (), w\<lparr>heap := (heap w)[r := OGroup (f g)]\<rparr>)"
  by (simp add: update_group_def bind_def get_group_at store_def)

lemma deref_update_same:
  "r < length (heap w) \<Longrightarrow> deref r (w\<lparr>heap := (heap w)[r := ob]\<rparr>) = Some ob"
  by (simp add: deref_def)

lemma deref_update_other:
  "r \<noteq> r' \<Longrightarrow> deref r (w\<lparr>heap := (heap w)[r' := ob]\<rparr>) = deref r w"
  by (simp add: deref_def)

lemma deref_append_old:
  "r < length (heap w) \<Longrightarrow> deref r (w\<lparr>heap := heap w @ obs\<rparr>) = deref r w"
  by (simp add: deref_def nth_append)

lemma heap_update_same: "deref r w = Some ob \<Longrightarrow> w\<lparr>heap := (heap w)[r := ob]\<rparr> = w"
  by (cases w) (auto simp: deref_iff list_update_same_conv)

lemma Column_init_hydrate:
  "column_id \<noteq> [] \<Longrightarrow>
   Column_init board title description column_type (PStr column_id) w =
     (Inr (length (heap w)),
      w\<lparr>heap := heap w @ [OColumn \<lparr>c_board = board, c_title = title,
                                    c_description = description, c_column_type = column_type,
                                    c_column_id = Some (PStr column_id)\<rparr>]\<rparr>)"
  by (simp add: Column_init_def bind_def alloc_def ret_def update_column_def get_column_def
      deref_def store_def)

lemma Group_init_hydrate:
  "group_id \<noteq> [] \<Longrightarrow>
   Group_init board title (PStr group_id) w =
     (Inr (length (heap w)),
      w\<lparr>heap := heap w @ [OGroup \<lparr>g_board = board, g_title = title, g_items = [],
                                   g_group_id = Some (PStr group_id)\<rparr>]\<rparr>)"
  by (simp add: Group_init_def bind_def alloc_def ret_def update_group_def get_group_def
      deref_def store_def)

lemma Board_set_columns_eq:
  assumes "deref self w = Some (OBoard b)"
    and "\<forall>c \<in> set json_columns. jc_id c \<noteq> []"
  shows "Board_set_columns self json_columns w =
     (Inr (),
      w\<lparr>heap := (heap w)[self := OBoard (b\<lparr>b_columns :=
                    columns_after (length (heap w)) json_columns (b_columns b)\<rparr>)]
                 @ map (column_of self) json_columns\<rparr>)"
  using assms
proof (induction json_columns arbitrary: w b)
  case Nil
  then show ?case by (simp add: ret_def heap_update_same)
next
  case (Cons c cs)
  let ?b1 = "b\<lparr>b_columns := AList.update (jc_title c) (length (heap w)) (b_columns b)\<rparr>"
  let ?w1 = "w\<lparr>heap := (heap w)[self := OBoard ?b1] @ [column_of self c]\<rparr>"
  from Cons.prems have self: "self < length (heap w)" by (simp add: deref_iff)
  have d1: "deref self ?w1 = Some (OBoard ?b1)"
    using self by (simp add: deref_def nth_append)
  have "Board_set_columns self (c # cs) w = Board_set_columns self cs ?w1"
    using Cons.prems self
    by (simp add: bind_def Column_init_hydrate update_board_def get_board_def deref_def
        nth_append store_def list_update_append1 column_of_def)
  also have "\<dots> = (Inr (),
      ?w1\<lparr>heap := (heap ?w1)[self := OBoard (?b1\<lparr>b_columns :=
                    columns_after (length (heap ?w1)) cs (b_columns ?b1)\<rparr>)]
                 @ map (column_of self) cs\<rparr>)"
    using Cons.IH [OF d1] Cons.prems(2) by simp
  finally show ?case
    using self by (simp add: list_update_append1)
qed

subsection \<open>Columns and groups of a board\<close>

lemma Board_set_groups_eq:
  assumes "deref self w = Some (OBoard b)"
    and "\<forall>g \<in> set json_groups. jg_id g \<noteq> []"
  shows "Board_set_groups self json_groups w =
     (Inr (),
      w\<lparr>heap := (heap w)[self := OBoard (b\<lparr>b_groups :=
                    groups_after (length (heap w)) json_groups (b_groups b)\<rparr>)]
                 @ map (group_of_entry self) json_groups\<rparr>)"
  using assms
proof (induction json_groups arbitrary: w b)
  case Nil
  then show ?case by (simp add: ret_def heap_update_same)
next
  case (Cons g gs)
  let ?b1 = "b\<lparr>b_groups := AList.update (jg_title g) (length (heap w)) (b_groups b)\<rparr>"
  let ?w1 = "w\<lparr>heap := (heap w)[self := OBoard ?b1] @ [group_of_entry self g]\<rparr>"
  from Cons.prems have self: "self < length (heap w)" by (simp add: deref_iff)
  have d1: "deref self ?w1 = Some (OBoard ?b1)"
    using self by (simp add: deref_def nth_append)
  have "Board_set_groups self (g # gs) w = Board_set_groups self gs ?w1"
    using Cons.prems self
    by (simp add: bind_def Group_init_hydrate update_board_def get_board_def deref_def
        nth_append store_def list_update_append1 group_of_entry_def)
  also have "\<dots> = (Inr (),
      ?w1\<lparr>heap := (heap ?w1)[self := OBoard (?b1\<lparr>b_groups :=
                    groups_after (length (heap ?w1)) gs (b_groups ?b1)\<rparr>)]
                 @ map (group_of_entry self) gs\<rparr>)"
    using Cons.IH [OF d1] Cons.prems(2) by simp
  finally show ?case
    using self by (simp add: list_update_append1)
qed

lemma columns_after_append:
  "columns_after n (xs @ ys) m = columns_after (n + length xs) ys (columns_after n xs m)"
  by (induction xs arbitrary: n m) simp_all

lemma keys_columns_after:
  "fst ` set (columns_after n cs m) = fst ` set m \<union> jc_title ` set cs"
  by (induction cs arbitrary: n m) (auto simp: dom_update)

lemma distinct_columns_after:
  "distinct (map fst m) \<Longrightarrow> distinct (map fst (columns_after n cs m))"
  by (induction cs arbitrary: n m) (simp_all add: distinct_update)

lemma map_of_columns_after_other:
  "t \<notin> jc_title ` set cs \<Longrightarrow> map_of (columns_after n cs m) t = map_of m t"
  by (induction cs arbitrary: n m) (auto simp: update_conv')

lemma map_of_columns_after_last:
  "jc_title c \<notin> jc_title ` set post \<Longrightarrow>
   map_of (columns_after n (pre @ c # post) m) (jc_title c) = Some (n + length pre)"
  by (simp add: columns_after_append map_of_columns_after_other update_conv')

lemma groups_after_append:
  "groups_after n (xs @ ys) m = groups_after (n + length xs) ys (groups_after n xs m)"
  by (induction xs arbitrary: n m) simp_all

lemma keys_groups_after:
  "fst ` set (groups_after n gs m) = fst ` set m \<union> jg_title ` set gs"
  by (induction gs arbitrary: n m) (auto simp: dom_update)

lemma distinct_groups_after:
  "distinct (map fst m) \<Longrightarrow> distinct (map fst (groups_after n gs m))"
  by (induction gs arbitrary: n m) (simp_all add: distinct_update)

lemma map_of_groups_after_other:
  "t \<notin> jg_title ` set gs \<Longrightarrow> map_of (groups_after n gs m) t = map_of m t"
  by (induction gs arbitrary: n m) (auto simp: update_conv')

lemma map_of_groups_after_last:
  "jg_title g \<notin> jg_title ` set post \<Longrightarrow>
   map_of (groups_after n (pre @ g # post) m) (jg_title g) = Some (n + length pre)"
  by (simp add: groups_after_append map_of_groups_after_other update_conv')

lemma add_column_at:
  assumes "deref self w = Some (OBoard b)" and "deref column w = Some (OColumn c)"
  shows "add_column self column w =
     (Inr (), w\<lparr>heap := (heap w)[self := OBoard (b\<lparr>b_columns :=
                   AList.update (c_title c) column (b_columns b)\<rparr>)]\<rparr>)"
  using assms by (simp add: add_column_def bind_def get_column_at update_board_at)

lemma board0_columns: "b_columns board0 = []"
  by (simp add: board0_def)

text \<open>
  C6. Registering columns by \<^verbatim>\<open>set_columns\<close>: whatever precedes the entry \<open>column\<close> in
  the payload, also entries with its title, when no later entry has that title the
  mapping holds under it the Column made for \<open>column\<close>. Registering two columns with
  one title by \<^verbatim>\<open>add_column\<close>: the mapping holds the later one. In both cases the keys
  of the mapping stay free of duplicates.
\<close>

theorem columns_last_write_wins:
  assumes "deref self w = Some (OBoard b)"
  shows "((\<forall>c \<in> set (pre @ column # post). jc_id c \<noteq> []) \<longrightarrow>
          jc_title column \<notin> jc_title ` set post \<longrightarrow>
          Board_set_columns self (pre @ column # post) w =
            (Inr (),
             w\<lparr>heap := (heap w)[self := OBoard (b\<lparr>b_columns :=
                   columns_after (length (heap w)) (pre @ column # post) (b_columns b)\<rparr>)]
                 @ map (column_of self) (pre @ column # post)\<rparr>)
          \<and> map_of (columns_after (length (heap w)) (pre @ column # post) (b_columns b))
               (jc_title column) = Some (length (heap w) + length pre)
          \<and> ((heap w)[self := OBoard (b\<lparr>b_columns :=
                   columns_after (length (heap w)) (pre @ column # post) (b_columns b)\<rparr>)]
                 @ map (column_of self) (pre @ column # post)) ! (length (heap w) + length pre)
              = column_of self column
          \<and> (distinct (map fst (b_columns b)) \<longrightarrow>
               distinct (map fst (columns_after (length (heap w)) (pre @ column # post)
                                    (b_columns b)))))
       \<and> (deref column1 w = Some (OColumn c1) \<longrightarrow> deref column2 w = Some (OColumn c2) \<longrightarrow>
          c_title c1 = c_title c2 \<longrightarrow>
          bind (add_column self column1) (\<lambda>_. add_column self column2) w =
            (Inr (), w\<lparr>heap := (heap w)[self := OBoard (b\<lparr>b_columns :=
                         AList.update (c_title c2) column2 (b_columns b)\<rparr>)]\<rparr>)
          \<and> map_of (AList.update (c_title c2) column2 (b_columns b)) (c_title c1) = Some column2
          \<and> (distinct (map fst (b_columns b)) \<longrightarrow>
               distinct (map fst (AList.update (c_title c2) column2 (b_columns b)))))"
proof (intro conjI impI)
  assume ids: "\<forall>c \<in> set (pre @ column # post). jc_id c \<noteq> []"
    and last: "jc_title column \<notin> jc_title ` set post"
  show "Board_set_columns self (pre @ column # post) w =
            (Inr (),
             w\<lparr>heap := (heap w)[self := OBoard (b\<lparr>b_columns :=
                   columns_after (length (heap w)) (pre @ column # post) (b_columns b)\<rparr>)]
                 @ map (column_of self) (pre @ column # post)\<rparr>)"
    by (rule Board_set_columns_eq [OF assms ids])
  show "map_of (columns_after (length (heap w)) (pre @ column # post) (b_columns b))
               (jc_title column) = Some (length (heap w) + length pre)"
    by (rule map_of_columns_after_last [OF last])
  show "((heap w)[self := OBoard (b\<lparr>b_columns :=
                   columns_after (length (heap w)) (pre @ column # post) (b_columns b)\<rparr>)]
                 @ map (column_of self) (pre @ column # post)) ! (length (heap w) + length pre)
              = column_of self column"
    by (simp add: nth_append)
next
  assume "distinct (map fst (b_columns b))"
  then show "distinct (map fst (columns_after (length (heap w)) (pre @ column # post)
                                    (b_columns b)))"
    by (rule distinct_columns_after)
next
  assume c1: "deref column1 w = Some (OColumn c1)" and c2: "deref column2 w = Some (OColumn c2)"
    and t: "c_title c1 = c_title c2"
  let ?b1 = "b\<lparr>b_columns := AList.update (c_title c1) column1 (b_columns b)\<rparr>"
  let ?w1 = "w\<lparr>heap := (heap w)[self := OBoard ?b1]\<rparr>"
  from assms c2 have ne: "column2 \<noteq> self" by auto
  from assms have d1: "deref self ?w1 = Some (OBoard ?b1)"
    by (simp add: deref_iff)
  from c2 ne have d2: "deref column2 ?w1 = Some (OColumn c2)"
    by (simp add: deref_iff)
  show "bind (add_column self column1) (\<lambda>_. add_column self column2) w =
            (Inr (), w\<lparr>heap := (heap w)[self := OBoard (b\<lparr>b_columns :=
                         AList.update (c_title c2) column2 (b_columns b)\<rparr>)]\<rparr>)"
  proof -
    have "bind (add_column self column1) (\<lambda>_. add_column self column2) w
            = add_column self column2 ?w1"
      by (simp add: bind_def add_column_at [OF assms c1])
    also have "\<dots> = (Inr (), ?w1\<lparr>heap := (heap ?w1)[self := OBoard (?b1\<lparr>b_columns :=
                         AList.update (c_title c2) column2 (b_columns ?b1)\<rparr>)]\<rparr>)"
      by (rule add_column_at [OF d1 d2])
    finally show ?thesis
      by (simp add: t)
  qed
  show "map_of (AList.update (c_title c2) column2 (b_columns b)) (c_title c1) = Some column2"
    by (simp add: t update_conv')
next
  assume "distinct (map fst (b_columns b))"
  then show "distinct (map fst (AList.update (c_title c2) column2 (b_columns b)))"
    by (simp add: distinct_update)
qed

theorem columns_last_write_wins_witness:
  "Board_set_columns 1
     [\<lparr>jc_id = ''status'', jc_title = ''Status'', jc_type = ''status'', jc_description = ''first''\<rparr>,
      \<lparr>jc_id = ''status7'', jc_title = ''Status'', jc_type = ''text'', jc_description = ''second''\<rparr>]
     \<lparr>heap = [OWorkSpace ws0, OBoard board0], events = [], pending = []\<rparr>
   = (Inr (),
      \<lparr>heap = [OWorkSpace ws0, OBoard (board0\<lparr>b_columns := [(''Status'', 3)]\<rparr>),
               OColumn \<lparr>c_board = 1, c_title = ''Status'', c_description = ''first'',
                        c_column_type = ''status'', c_column_id = Some (PStr ''status'')\<rparr>,
               OColumn \<lparr>c_board = 1, c_title = ''Status'', c_description = ''second'',
                        c_column_type = ''text'', c_column_id = Some (PStr ''status7'')\<rparr>],
       events = [], pending = []\<rparr>)"
  using columns_last_write_wins
    [of 1 "\<lparr>heap = [OWorkSpace ws0, OBoard board0], events = [], pending = []\<rparr>" board0
      "[\<lparr>jc_id = ''status'', jc_title = ''Status'', jc_type = ''status'', jc_description = ''first''\<rparr>]"
      "\<lparr>jc_id = ''status7'', jc_title = ''Status'', jc_type = ''text'', jc_description = ''second''\<rparr>"
      "[]"]
  by (simp add: deref_def column_of_def board0_columns)

text \<open>
  C6, the part that fails. Constructing a Column does not register it:
  \<^verbatim>\<open>Column.__init__\<close> (lines 644 to 672) never writes \<^verbatim>\<open>board.columns\<close>. After two columns
  titled \<^verbatim>\<open>Status\<close> were constructed on a board, both created remotely and both in the
  store, the mapping of the board holds nothing under \<^verbatim>\<open>Status\<close>: the later one has
  overwritten nothing.
\<close>

theorem construction_does_not_register_column:
  "fst (construct_two_columns two_columns_world) = Inr board0
   \<and> map_of (b_columns board0) ''Status'' = None
   \<and> heap (snd (construct_two_columns two_columns_world)) =
       [OWorkSpace ws0, OBoard board0,
        OColumn \<lparr>c_board = 1, c_title = ''Status'', c_description = [],
                 c_column_type = ''status'', c_column_id = Some (PStr ''status'')\<rparr>,
        OColumn \<lparr>c_board = 1, c_title = ''Status'', c_description = [],
                 c_column_type = ''status'', c_column_id = Some (PStr ''status4'')\<rparr>]"
  by code_simp

subsection \<open>Items of a board\<close>

lemma update_item_at:
  "deref r w = Some (OItem i) \<Longrightarrow>
   update_item r f w = (Inr (), w\<lparr>heap := (heap w)[r := OItem (f i)]\<rparr>)"
  by (simp add: update_item_def bind_def get_item_at store_def)

lemma Item_set_columns_eq:
  "deref self w = Some (OItem i) \<Longrightarrow>
   Item_set_columns self vals w =
     (Inr (), w\<lparr>heap := (heap w)[self := OItem (i\<lparr>i_columns_values :=
                   columns_values_after vals (i_columns_values i)\<rparr>)]\<rparr>)"
proof (induction vals arbitrary: w i)
  case Nil
  then show ?case by (simp add: ret_def heap_update_same)
next
  case (Cons v vs)
  let ?i1 = "i\<lparr>i_columns_values := AList.update (jv_id v) (jv_text v) (i_columns_values i)\<rparr>"
  let ?w1 = "w\<lparr>heap := (heap w)[self := OItem ?i1]\<rparr>"
  from Cons.prems have d1: "deref self ?w1 = Some (OItem ?i1)"
    by (simp add: deref_iff)
  have "Item_set_columns self (v # vs) w = Item_set_columns self vs ?w1"
    by (simp add: bind_def update_item_at [OF Cons.prems])
  then show ?case
    by (simp add: Cons.IH [OF d1])
qed

lemma Item_init_hydrate:
  assumes "item_id \<noteq> []"
  shows "Item_init grp name (PStr item_id) (Some vals) columns_values w =
     (Inr (length (heap w)),
      w\<lparr>heap := heap w @ [OItem \<lparr>i_group = grp, i_item_id = PStr item_id, i_name = name,
                                  i_columns_values = columns_values_after vals []\<rparr>]\<rparr>)"
proof -
  let ?i0 = "\<lparr>i_group = grp, i_item_id = PStr item_id, i_name = name, i_columns_values = []\<rparr>"
  let ?w0 = "w\<lparr>heap := heap w @ [OItem ?i0]\<rparr>"
  have d: "deref (length (heap w)) ?w0 = Some (OItem ?i0)"
    by (simp add: deref_def)
  show ?thesis
    using assms
    by (simp add: Item_init_def bind_def alloc_def ret_def Item_set_columns_eq [OF d])
qed

lemma add_item_at:
  assumes "deref item w = Some (OItem i)" and "deref self w = Some (OGroup g)"
  shows "add_item self item w =
     (Inr (), w\<lparr>heap := (heap w)[self := OGroup (g\<lparr>g_items :=
                   AList.update (i_name i) item (g_items g)\<rparr>)]\<rparr>)"
  using assms by (simp add: add_item_def bind_def get_item_at update_group_at)

lemma Board_set_items_step:
  assumes board: "deref self w = Some (OBoard b)"
    and g0: "map_of (b_groups b) (jg_title (ji_group it)) = Some g0"
    and gr0: "deref g0 w = Some (OGroup gr0)"
    and id: "ji_id it \<noteq> []"
  shows "Board_set_items self (it # json_items) w =
     Board_set_items self json_items
       (w\<lparr>heap := (heap w)[g0 := OGroup (gr0\<lparr>g_items :=
                     AList.update (ji_name it) (length (heap w)) (g_items gr0)\<rparr>)]
                  @ [OItem (item_of it)]\<rparr>)"
proof -
  let ?n = "length (heap w)"
  let ?w1 = "w\<lparr>heap := heap w @ [OItem (item_of it)]\<rparr>"
  from board gr0 have lt: "self < ?n" "g0 < ?n" by (simp_all add: deref_iff)
  have i1: "Item_init (PStr (jg_title (ji_group it))) (ji_name it) (PStr (ji_id it))
              (Some (ji_column_values it)) [] w = (Inr ?n, ?w1)"
    using id by (simp add: Item_init_hydrate item_of_def)
  have b1: "get_board self ?w1 = (Inr b, ?w1)"
    using board lt by (simp add: get_board_at deref_iff nth_append)
  have d_item: "deref ?n ?w1 = Some (OItem (item_of it))"
    by (simp add: deref_iff)
  have d_group: "deref g0 ?w1 = Some (OGroup gr0)"
    using gr0 lt by (simp add: deref_iff nth_append)
  have a1: "add_item g0 ?n ?w1 =
      (Inr (), ?w1\<lparr>heap := (heap ?w1)[g0 := OGroup (gr0\<lparr>g_items :=
                   AList.update (i_name (item_of it)) ?n (g_items gr0)\<rparr>)]\<rparr>)"
    by (rule add_item_at [OF d_item d_group])
  have name: "i_name (item_of it) = ji_name it"
    by (simp add: item_of_def)
  show ?thesis
    using lt by (simp add: bind_def i1 b1 g0 a1 name list_update_append1)
qed

lemma items_after_range:
  "map_of (items_after t n its m) nm = Some a \<Longrightarrow>
   map_of m nm = Some a
   \<or> (n \<le> a \<and> a < n + length its \<and> ji_name (its ! (a - n)) = nm
        \<and> jg_title (ji_group (its ! (a - n))) = t)"
proof (induction its arbitrary: n m)
  case Nil
  then show ?case by simp
next
  case (Cons it its)
  from Cons.IH [OF Cons.prems [simplified]]
  show ?case
  proof
    assume "map_of (if jg_title (ji_group it) = t then AList.update (ji_name it) n m else m) nm
              = Some a"
    then show ?thesis
      by (auto simp: update_conv' split: if_splits)
  next
    assume "Suc n \<le> a \<and> a < Suc n + length its \<and> ji_name (its ! (a - Suc n)) = nm
              \<and> jg_title (ji_group (its ! (a - Suc n))) = t"
    then show ?thesis
      by (auto simp: Suc_diff_le)
  qed
qed

lemma keys_items_after:
  "fst ` set (items_after t n its m)
     = fst ` set m \<union> {ji_name it |it. it \<in> set its \<and> jg_title (ji_group it) = t}"
  by (induction its arbitrary: n m) (auto simp: dom_update)

lemma items_after_append:
  "items_after t n (xs @ ys) m = items_after t (n + length xs) ys (items_after t n xs m)"
  by (induction xs arbitrary: n m) simp_all

lemma map_of_items_after_other:
  "\<forall>it \<in> set its. \<not> (ji_name it = nm \<and> jg_title (ji_group it) = t) \<Longrightarrow>
   map_of (items_after t n its m) nm = map_of m nm"
  by (induction its arbitrary: n m) (auto simp: update_conv')

lemma map_of_items_after_last:
  "\<forall>it' \<in> set post. \<not> (ji_name it' = ji_name it
      \<and> jg_title (ji_group it') = jg_title (ji_group it)) \<Longrightarrow>
   map_of (items_after (jg_title (ji_group it)) n (pre @ it # post) m) (ji_name it)
     = Some (n + length pre)"
  by (simp add: items_after_append map_of_items_after_other update_conv')

lemma Board_set_items_effect:
  assumes "deref self w = Some (OBoard b)"
    and "\<forall>t g. map_of (b_groups b) t = Some g \<longrightarrow>
           g \<noteq> self \<and> (\<exists>gr. deref g w = Some (OGroup gr))"
    and "\<forall>t t' g. map_of (b_groups b) t = Some g \<longrightarrow> map_of (b_groups b) t' = Some g \<longrightarrow> t = t'"
    and "\<forall>it \<in> set its. ji_id it \<noteq> [] \<and> jg_title (ji_group it) \<in> fst ` set (b_groups b)"
  shows "\<exists>w'. Board_set_items self its w = (Inr (), w')
     \<and> events w' = events w \<and> pending w' = pending w
     \<and> length (heap w') = length (heap w) + length its
     \<and> deref self w' = Some (OBoard b)
     \<and> (\<forall>j < length its. heap w' ! (length (heap w) + j) = OItem (item_of (its ! j)))
     \<and> (\<forall>a < length (heap w). (\<forall>t. map_of (b_groups b) t \<noteq> Some a) \<longrightarrow>
           heap w' ! a = heap w ! a)
     \<and> (\<forall>t g gr. map_of (b_groups b) t = Some g \<longrightarrow> deref g w = Some (OGroup gr) \<longrightarrow>
           deref g w' = Some (OGroup (gr\<lparr>g_items :=
             items_after t (length (heap w)) its (g_items gr)\<rparr>)))"
  using assms
proof (induction its arbitrary: w)
  case Nil
  then show ?case by (simp add: ret_def)
next
  case (Cons it its)
  note board = Cons.prems(1) and wf = Cons.prems(2) and inj = Cons.prems(3)
  let ?n = "length (heap w)"
  let ?t0 = "jg_title (ji_group it)"
  from Cons.prems(4) have id: "ji_id it \<noteq> []" and "?t0 \<in> fst ` set (b_groups b)"
    and rest: "\<forall>it \<in> set its. ji_id it \<noteq> [] \<and> jg_title (ji_group it) \<in> fst ` set (b_groups b)"
    by simp_all
  then obtain g0 where g0: "map_of (b_groups b) ?t0 = Some g0"
    by (cases "map_of (b_groups b) ?t0") (auto simp: map_of_eq_None_iff)
  with wf obtain gr0 where gr0: "deref g0 w = Some (OGroup gr0)" and ne0: "g0 \<noteq> self"
    by blast
  let ?gr1 = "gr0\<lparr>g_items := AList.update (ji_name it) ?n (g_items gr0)\<rparr>"
  let ?w2 = "w\<lparr>heap := (heap w)[g0 := OGroup ?gr1] @ [OItem (item_of it)]\<rparr>"
  from board gr0 have lt: "self < ?n" "g0 < ?n" by (simp_all add: deref_iff)
  have in_range: "g < ?n" if "map_of (b_groups b) t = Some g" for t g
    using wf that by (auto simp: deref_iff)
  have step: "Board_set_items self (it # its) w = Board_set_items self its ?w2"
    by (rule Board_set_items_step [OF board g0 gr0 id])
  have board2: "deref self ?w2 = Some (OBoard b)"
    using board lt ne0 by (simp add: deref_iff nth_append)
  have old2: "deref a ?w2 = (if a = g0 then Some (OGroup ?gr1) else deref a w)" if "a < ?n" for a
    using that by (simp add: deref_def nth_append)
  have wf2: "\<forall>t g. map_of (b_groups b) t = Some g \<longrightarrow>
           g \<noteq> self \<and> (\<exists>gr. deref g ?w2 = Some (OGroup gr))"
  proof (intro allI impI)
    fix t g assume m: "map_of (b_groups b) t = Some g"
    with wf have "g \<noteq> self" and "\<exists>gr. deref g w = Some (OGroup gr)" by blast+
    then show "g \<noteq> self \<and> (\<exists>gr. deref g ?w2 = Some (OGroup gr))"
      using old2 [OF in_range [OF m]] by auto
  qed
  from Cons.IH [OF board2 wf2 inj rest] obtain w' where
    run: "Board_set_items self its ?w2 = (Inr (), w')"
    and ev: "events w' = events ?w2" and pe: "pending w' = pending ?w2"
    and len: "length (heap w') = length (heap ?w2) + length its"
    and b': "deref self w' = Some (OBoard b)"
    and its': "\<forall>j < length its. heap w' ! (length (heap ?w2) + j) = OItem (item_of (its ! j))"
    and same: "\<forall>a < length (heap ?w2). (\<forall>t. map_of (b_groups b) t \<noteq> Some a) \<longrightarrow>
           heap w' ! a = heap ?w2 ! a"
    and groups: "\<forall>t g gr. map_of (b_groups b) t = Some g \<longrightarrow> deref g ?w2 = Some (OGroup gr) \<longrightarrow>
           deref g w' = Some (OGroup (gr\<lparr>g_items :=
             items_after t (length (heap ?w2)) its (g_items gr)\<rparr>))"
    by blast
  have len2: "length (heap ?w2) = Suc ?n" by simp
  have c_items: "\<forall>j < length (it # its). heap w' ! (?n + j) = OItem (item_of ((it # its) ! j))"
  proof (intro allI impI)
    fix j assume j: "j < length (it # its)"
    show "heap w' ! (?n + j) = OItem (item_of ((it # its) ! j))"
    proof (cases j)
      case 0
      have "\<forall>t. map_of (b_groups b) t \<noteq> Some ?n"
        using in_range by fastforce
      with same have "heap w' ! ?n = heap ?w2 ! ?n" by simp
      then show ?thesis using 0 by (simp add: nth_append)
    next
      case (Suc k)
      with j its' show ?thesis by simp
    qed
  qed
  have c_same: "\<forall>a < ?n. (\<forall>t. map_of (b_groups b) t \<noteq> Some a) \<longrightarrow> heap w' ! a = heap w ! a"
  proof (intro allI impI)
    fix a assume a: "a < ?n" and free: "\<forall>t. map_of (b_groups b) t \<noteq> Some a"
    from free g0 have "a \<noteq> g0" by auto
    moreover from same a free have "heap w' ! a = heap ?w2 ! a" by simp
    ultimately show "heap w' ! a = heap w ! a"
      using a by (simp add: nth_append)
  qed
  have c_groups: "\<forall>t g gr. map_of (b_groups b) t = Some g \<longrightarrow> deref g w = Some (OGroup gr) \<longrightarrow>
           deref g w' = Some (OGroup (gr\<lparr>g_items :=
             items_after t ?n (it # its) (g_items gr)\<rparr>))"
  proof (intro allI impI)
    fix t g gr
    assume m: "map_of (b_groups b) t = Some g" and d: "deref g w = Some (OGroup gr)"
    show "deref g w' = Some (OGroup (gr\<lparr>g_items := items_after t ?n (it # its) (g_items gr)\<rparr>))"
    proof (cases "g = g0")
      case True
      with m g0 inj have t: "t = ?t0" by blast
      from True d gr0 have gr: "gr = gr0" by simp
      have "deref g ?w2 = Some (OGroup ?gr1)"
        using old2 [OF in_range [OF m]] True by simp
      with groups m have "deref g w' = Some (OGroup (?gr1\<lparr>g_items :=
             items_after t (length (heap ?w2)) its (g_items ?gr1)\<rparr>))"
        by blast
      then show ?thesis by (simp add: t gr)
    next
      case False
      with m g0 have t: "?t0 \<noteq> t" by auto
      have "deref g ?w2 = Some (OGroup gr)"
        using old2 [OF in_range [OF m]] False d by simp
      with groups m have "deref g w' = Some (OGroup (gr\<lparr>g_items :=
             items_after t (length (heap ?w2)) its (g_items gr)\<rparr>))"
        by blast
      then show ?thesis using t by simp
    qed
  qed
  show ?case
  proof (intro exI conjI)
    show "Board_set_items self (it # its) w = (Inr (), w')"
      using step run by simp
    show "events w' = events w" using ev by simp
    show "pending w' = pending w" using pe by simp
    show "length (heap w') = ?n + length (it # its)" using len by simp
    show "deref self w' = Some (OBoard b)" by (rule b')
    show "\<forall>j < length (it # its). heap w' ! (?n + j) = OItem (item_of ((it # its) ! j))"
      by (rule c_items)
    show "\<forall>a < ?n. (\<forall>t. map_of (b_groups b) t \<noteq> Some a) \<longrightarrow> heap w' ! a = heap w ! a"
      by (rule c_same)
    show "\<forall>t g gr. map_of (b_groups b) t = Some g \<longrightarrow> deref g w = Some (OGroup gr) \<longrightarrow>
           deref g w' = Some (OGroup (gr\<lparr>g_items :=
             items_after t ?n (it # its) (g_items gr)\<rparr>))"
      by (rule c_groups)
  qed
qed

subsection \<open>Hydrating a board\<close>

lemma groups_after_range:
  "map_of (groups_after n gs m) t = Some g \<Longrightarrow>
   map_of m t = Some g \<or> (n \<le> g \<and> g < n + length gs \<and> jg_title (gs ! (g - n)) = t)"
proof (induction gs arbitrary: n m)
  case Nil
  then show ?case by simp
next
  case (Cons x gs)
  from Cons.IH [OF Cons.prems [simplified]]
  show ?case
  proof
    assume "map_of (AList.update (jg_title x) n m) t = Some g"
    then show ?thesis
      by (auto simp: update_conv' split: if_splits)
  next
    assume "Suc n \<le> g \<and> g < Suc n + length gs \<and> jg_title (gs ! (g - Suc n)) = t"
    then show ?thesis
      by (auto simp: Suc_diff_le)
  qed
qed

lemma bind_ok: "m w = (Inr x, w') \<Longrightarrow> bind m f w = f x w'"
  by (simp add: bind_def)

lemma Board_init_hydrate_eq:
  assumes "json_groups \<noteq> []"
    and cs: "\<forall>c \<in> set json_columns. jc_id c \<noteq> []"
    and gs: "\<forall>g \<in> set json_groups. jg_id g \<noteq> []"
  shows "Board_init str ws name exists (Some json_groups) (Some json_columns) (Some json_items)
           board_id w =
     bind (Board_set_items (length (heap w)) json_items) (\<lambda>_. ret (length (heap w)))
       (w\<lparr>heap := heap w
            @ OBoard \<lparr>b_work_space = ws, b_name = name,
                      b_columns = columns_after (Suc (length (heap w))) json_columns [],
                      b_groups = groups_after (Suc (length (heap w) + length json_columns))
                                   json_groups [],
                      b_board_id = Some board_id, b_status_column_id = None,
                      b_execution_dict = None, b_check_rate = None\<rparr>
            # map (column_of (length (heap w))) json_columns
            @ map (group_of_entry (length (heap w))) json_groups\<rparr>)"
proof -
  let ?self = "length (heap w)"
  let ?b0 = "\<lparr>b_work_space = ws, b_name = name, b_columns = [], b_groups = [],
              b_board_id = Some board_id, b_status_column_id = None,
              b_execution_dict = None, b_check_rate = None\<rparr>"
  let ?b1 = "\<lparr>b_work_space = ws, b_name = name,
              b_columns = columns_after (Suc ?self) json_columns [], b_groups = [],
              b_board_id = Some board_id, b_status_column_id = None,
              b_execution_dict = None, b_check_rate = None\<rparr>"
  let ?b2 = "\<lparr>b_work_space = ws, b_name = name,
              b_columns = columns_after (Suc ?self) json_columns [],
              b_groups = groups_after (Suc (?self + length json_columns)) json_groups [],
              b_board_id = Some board_id, b_status_column_id = None,
              b_execution_dict = None, b_check_rate = None\<rparr>"
  let ?w1 = "w\<lparr>heap := heap w @ [OBoard ?b0]\<rparr>"
  let ?w2 = "w\<lparr>heap := heap w @ OBoard ?b1 # map (column_of ?self) json_columns\<rparr>"
  let ?w3 = "w\<lparr>heap := heap w @ OBoard ?b2 # map (column_of ?self) json_columns
                         @ map (group_of_entry ?self) json_groups\<rparr>"
  obtain g groups where split: "json_groups = g # groups"
    using assms(1) by (cases json_groups) auto
  have d1: "deref ?self ?w1 = Some (OBoard ?b0)"
    by (simp add: deref_def)
  have d2: "deref ?self ?w2 = Some (OBoard ?b1)"
    by (simp add: deref_def nth_append)
  have c: "Board_set_columns ?self json_columns ?w1 = (Inr (), ?w2)"
    using Board_set_columns_eq [OF d1 cs] by simp
  have g: "Board_set_groups ?self json_groups ?w2 = (Inr (), ?w3)"
    using Board_set_groups_eq [OF d2 gs] by simp
  have "Board_init str ws name exists (Some json_groups) (Some json_columns) (Some json_items)
           board_id w =
        bind (Board_set_columns ?self json_columns) (\<lambda>_.
        bind (Board_set_groups ?self json_groups) (\<lambda>_.
        bind (Board_set_items ?self json_items) (\<lambda>_. ret ?self))) ?w1"
    by (simp add: Board_init_def split bind_def alloc_def update_board_def get_board_def
        deref_def store_def del: Board_set_groups.simps)
  also have "\<dots> = bind (Board_set_groups ?self json_groups) (\<lambda>_.
        bind (Board_set_items ?self json_items) (\<lambda>_. ret ?self)) ?w2"
    by (rule bind_ok [of "Board_set_columns ?self json_columns" ?w1, OF c])
  also have "\<dots> = bind (Board_set_items ?self json_items) (\<lambda>_. ret ?self) ?w3"
    by (rule bind_ok [of "Board_set_groups ?self json_groups" ?w2, OF g])
  finally show ?thesis .
qed

text \<open>
  C5. Hydrating a board from a payload whose list of groups is not empty, whose ids are
  not empty and whose items name groups of the payload. No query is posted. The new
  instances stand in the store in the order of their construction: the board, the
  columns, the groups, the items. The keys of \<^verbatim>\<open>columns\<close> and of \<^verbatim>\<open>groups\<close> are the titles
  of the payload; the keys of the \<^verbatim>\<open>items\<close> of the group registered under a title are the
  names of the items of the payload with that group title; under the name of every
  item its group holds an Item built from an entry of the payload with that name and
  that group title; and an item that no later entry of the payload follows with the same
  name and the same group title is itself the one its group holds under its name.
\<close>

theorem Board_init_hydrates:
  assumes groups: "json_groups \<noteq> []"
    and cs: "\<forall>c \<in> set json_columns. jc_id c \<noteq> []"
    and gs: "\<forall>g \<in> set json_groups. jg_id g \<noteq> []"
    and its: "\<forall>it \<in> set json_items.
                ji_id it \<noteq> [] \<and> jg_title (ji_group it) \<in> jg_title ` set json_groups"
  shows "\<exists>w' b'.
      Board_init str ws name exists (Some json_groups) (Some json_columns) (Some json_items)
        board_id w = (Inr (length (heap w)), w')
    \<and> events w' = events w \<and> pending w' = pending w
    \<and> length (heap w') = length (heap w) + 1 + length json_columns + length json_groups
                            + length json_items
    \<and> (\<forall>a < length (heap w). heap w' ! a = heap w ! a)
    \<and> heap w' ! length (heap w) = OBoard b'
    \<and> (\<forall>j < length json_columns.
          heap w' ! (length (heap w) + 1 + j) = column_of (length (heap w)) (json_columns ! j))
    \<and> (\<forall>j < length json_groups. \<exists>gr.
          heap w' ! (length (heap w) + 1 + length json_columns + j) = OGroup gr
          \<and> g_board gr = length (heap w) \<and> g_title gr = jg_title (json_groups ! j)
          \<and> g_group_id gr = Some (PStr (jg_id (json_groups ! j))))
    \<and> (\<forall>j < length json_items.
          heap w' ! (length (heap w) + 1 + length json_columns + length json_groups + j)
            = OItem (item_of (json_items ! j)))
    \<and> fst ` set (b_columns b') = jc_title ` set json_columns
    \<and> fst ` set (b_groups b') = jg_title ` set json_groups
    \<and> distinct (map fst (b_columns b')) \<and> distinct (map fst (b_groups b'))
    \<and> (\<forall>t \<in> jg_title ` set json_groups. \<exists>g gr.
          map_of (b_groups b') t = Some g \<and> deref g w' = Some (OGroup gr) \<and> g_title gr = t
          \<and> fst ` set (g_items gr)
              = {ji_name it |it. it \<in> set json_items \<and> jg_title (ji_group it) = t})
    \<and> (\<forall>it \<in> set json_items. \<exists>g gr a it'.
          map_of (b_groups b') (jg_title (ji_group it)) = Some g
          \<and> deref g w' = Some (OGroup gr)
          \<and> map_of (g_items gr) (ji_name it) = Some a
          \<and> it' \<in> set json_items \<and> deref a w' = Some (OItem (item_of it'))
          \<and> ji_name it' = ji_name it \<and> jg_title (ji_group it') = jg_title (ji_group it))
    \<and> (\<forall>j < length json_items.
          (\<forall>k. j < k \<longrightarrow> k < length json_items \<longrightarrow>
             \<not> (ji_name (json_items ! k) = ji_name (json_items ! j)
                \<and> jg_title (ji_group (json_items ! k)) = jg_title (ji_group (json_items ! j)))) \<longrightarrow>
          (\<exists>g gr.
             map_of (b_groups b') (jg_title (ji_group (json_items ! j))) = Some g
             \<and> deref g w' = Some (OGroup gr)
             \<and> map_of (g_items gr) (ji_name (json_items ! j))
                 = Some (length (heap w) + 1 + length json_columns + length json_groups + j)))"
proof -
  let ?self = "length (heap w)"
  let ?N = "Suc (?self + length json_columns)"
  let ?b2 = "\<lparr>b_work_space = ws, b_name = name,
              b_columns = columns_after (Suc ?self) json_columns [],
              b_groups = groups_after ?N json_groups [],
              b_board_id = Some board_id, b_status_column_id = None,
              b_execution_dict = None, b_check_rate = None\<rparr>"
  let ?w3 = "w\<lparr>heap := heap w @ OBoard ?b2 # map (column_of ?self) json_columns
                         @ map (group_of_entry ?self) json_groups\<rparr>"
  let ?n3 = "length (heap ?w3)"
  have n3: "?n3 = ?N + length json_groups" by simp
  have start: "Board_init str ws name exists (Some json_groups) (Some json_columns)
                 (Some json_items) board_id w =
               bind (Board_set_items ?self json_items) (\<lambda>_. ret ?self) ?w3"
    by (rule Board_init_hydrate_eq [OF groups cs gs])
  have d3: "deref ?self ?w3 = Some (OBoard ?b2)"
    by (simp add: deref_def nth_append)
  have grange: "?N \<le> g \<and> g < ?N + length json_groups \<and> jg_title (json_groups ! (g - ?N)) = t"
    if "map_of (b_groups ?b2) t = Some g" for t g
    using groups_after_range [of ?N json_groups "[]" t g] that by simp
  have gobj: "deref (?N + j) ?w3 = Some (group_of_entry ?self (json_groups ! j))"
    if "j < length json_groups" for j
    using that by (simp add: deref_def nth_append nth_Cons')
  have wf3: "\<forall>t g. map_of (b_groups ?b2) t = Some g \<longrightarrow>
               g \<noteq> ?self \<and> (\<exists>gr. deref g ?w3 = Some (OGroup gr))"
  proof (intro allI impI)
    fix t g assume m: "map_of (b_groups ?b2) t = Some g"
    from grange [OF m] have r: "?N \<le> g" "g - ?N < length json_groups" by auto
    from gobj [OF r(2)] r(1) show "g \<noteq> ?self \<and> (\<exists>gr. deref g ?w3 = Some (OGroup gr))"
      by (auto simp: group_of_entry_def)
  qed
  have inj3: "\<forall>t t' g. map_of (b_groups ?b2) t = Some g \<longrightarrow>
                map_of (b_groups ?b2) t' = Some g \<longrightarrow> t = t'"
    using grange by blast
  have keys_g: "fst ` set (b_groups ?b2) = jg_title ` set json_groups"
    by (simp add: keys_groups_after)
  have its3: "\<forall>it \<in> set json_items.
                ji_id it \<noteq> [] \<and> jg_title (ji_group it) \<in> fst ` set (b_groups ?b2)"
    using its keys_g by simp
  from Board_set_items_effect [OF d3 wf3 inj3 its3] obtain w' where
    run: "Board_set_items ?self json_items ?w3 = (Inr (), w')"
    and ev: "events w' = events ?w3" and pe: "pending w' = pending ?w3"
    and len: "length (heap w') = ?n3 + length json_items"
    and b': "deref ?self w' = Some (OBoard ?b2)"
    and items: "\<forall>j < length json_items. heap w' ! (?n3 + j) = OItem (item_of (json_items ! j))"
    and same: "\<forall>a < ?n3. (\<forall>t. map_of (b_groups ?b2) t \<noteq> Some a) \<longrightarrow> heap w' ! a = heap ?w3 ! a"
    and grp: "\<forall>t g gr. map_of (b_groups ?b2) t = Some g \<longrightarrow> deref g ?w3 = Some (OGroup gr) \<longrightarrow>
           deref g w' = Some (OGroup (gr\<lparr>g_items := items_after t ?n3 json_items (g_items gr)\<rparr>))"
    by blast
  have below: "heap w' ! a = heap ?w3 ! a" if "a < ?N" for a
  proof -
    have "\<forall>t. map_of (b_groups ?b2) t \<noteq> Some a"
      using grange that by fastforce
    with same that show ?thesis by simp
  qed
  have group_at: "\<exists>gr. deref g w' = Some (OGroup gr) \<and> g_title gr = t
        \<and> g_items gr = items_after t ?n3 json_items []"
    if m: "map_of (b_groups ?b2) t = Some g" for t g
  proof -
    from grange [OF m] have r: "?N \<le> g" "g - ?N < length json_groups"
      and t: "jg_title (json_groups ! (g - ?N)) = t" by auto
    from gobj [OF r(2)] r(1)
    have "deref g ?w3 = Some (group_of_entry ?self (json_groups ! (g - ?N)))" by simp
    with grp m show ?thesis
      by (auto simp: group_of_entry_def t)
  qed
  have c_run: "Board_init str ws name exists (Some json_groups) (Some json_columns)
                 (Some json_items) board_id w = (Inr ?self, w')"
    by (simp add: start bind_ok [of "Board_set_items ?self json_items" ?w3, OF run] ret_def)
  have c_old: "\<forall>a < ?self. heap w' ! a = heap w ! a"
    using below by (simp add: nth_append)
  have c_board: "heap w' ! ?self = OBoard ?b2"
    using b' by (simp add: deref_iff)
  have c_cols: "\<forall>j < length json_columns.
          heap w' ! (?self + 1 + j) = column_of ?self (json_columns ! j)"
    using below by (simp add: nth_append)
  have c_groups: "\<forall>j < length json_groups. \<exists>gr.
          heap w' ! (?self + 1 + length json_columns + j) = OGroup gr
          \<and> g_board gr = ?self \<and> g_title gr = jg_title (json_groups ! j)
          \<and> g_group_id gr = Some (PStr (jg_id (json_groups ! j)))"
  proof (intro allI impI)
    fix j assume j: "j < length json_groups"
    let ?a = "?N + j"
    have a: "?self + 1 + length json_columns + j = ?a" by simp
    show "\<exists>gr. heap w' ! (?self + 1 + length json_columns + j) = OGroup gr
          \<and> g_board gr = ?self \<and> g_title gr = jg_title (json_groups ! j)
          \<and> g_group_id gr = Some (PStr (jg_id (json_groups ! j)))"
    proof (cases "\<exists>t. map_of (b_groups ?b2) t = Some ?a")
      case True
      then obtain t where m: "map_of (b_groups ?b2) t = Some ?a" by blast
      from grp m gobj [OF j]
      have "deref ?a w' = Some (OGroup (\<lparr>g_board = ?self, g_title = jg_title (json_groups ! j),
               g_items = [], g_group_id = Some (PStr (jg_id (json_groups ! j)))\<rparr>
               \<lparr>g_items := items_after t ?n3 json_items []\<rparr>))"
        by (simp add: group_of_entry_def)
      then show ?thesis
        unfolding a by (simp add: deref_iff)
    next
      case False
      with same j have "heap w' ! ?a = heap ?w3 ! ?a" by simp
      with gobj [OF j] show ?thesis
        unfolding a by (simp add: deref_iff group_of_entry_def)
    qed
  qed
  have c_items: "\<forall>j < length json_items.
          heap w' ! (?self + 1 + length json_columns + length json_groups + j)
            = OItem (item_of (json_items ! j))"
    using items by (simp add: add.assoc)
  have c_titles: "\<forall>t \<in> jg_title ` set json_groups. \<exists>g gr.
          map_of (b_groups ?b2) t = Some g \<and> deref g w' = Some (OGroup gr) \<and> g_title gr = t
          \<and> fst ` set (g_items gr)
              = {ji_name it |it. it \<in> set json_items \<and> jg_title (ji_group it) = t}"
  proof
    fix t assume "t \<in> jg_title ` set json_groups"
    with keys_g obtain g where m: "map_of (b_groups ?b2) t = Some g"
      by (cases "map_of (b_groups ?b2) t") (auto simp: map_of_eq_None_iff)
    from group_at [OF m] obtain gr where "deref g w' = Some (OGroup gr)" "g_title gr = t"
      "g_items gr = items_after t ?n3 json_items []" by blast
    with m show "\<exists>g gr. map_of (b_groups ?b2) t = Some g \<and> deref g w' = Some (OGroup gr)
          \<and> g_title gr = t
          \<and> fst ` set (g_items gr)
              = {ji_name it |it. it \<in> set json_items \<and> jg_title (ji_group it) = t}"
      by (auto simp: keys_items_after)
  qed
  have c_each: "\<forall>it \<in> set json_items. \<exists>g gr a it'.
          map_of (b_groups ?b2) (jg_title (ji_group it)) = Some g
          \<and> deref g w' = Some (OGroup gr)
          \<and> map_of (g_items gr) (ji_name it) = Some a
          \<and> it' \<in> set json_items \<and> deref a w' = Some (OItem (item_of it'))
          \<and> ji_name it' = ji_name it \<and> jg_title (ji_group it') = jg_title (ji_group it)"
  proof
    fix it assume it: "it \<in> set json_items"
    let ?t = "jg_title (ji_group it)"
    from its it keys_g obtain g where m: "map_of (b_groups ?b2) ?t = Some g"
      by (cases "map_of (b_groups ?b2) ?t") (auto simp: map_of_eq_None_iff)
    from group_at [OF m] obtain gr where gr: "deref g w' = Some (OGroup gr)"
      and gi: "g_items gr = items_after ?t ?n3 json_items []" by blast
    from it have "ji_name it \<in> fst ` set (items_after ?t ?n3 json_items [])"
      by (auto simp: keys_items_after)
    then obtain a where a: "map_of (items_after ?t ?n3 json_items []) (ji_name it) = Some a"
      by (cases "map_of (items_after ?t ?n3 json_items []) (ji_name it)")
         (auto simp: map_of_eq_None_iff)
    from items_after_range [OF a]
    have r: "?n3 \<le> a" "a - ?n3 < length json_items"
      and nm: "ji_name (json_items ! (a - ?n3)) = ji_name it"
      and tt: "jg_title (ji_group (json_items ! (a - ?n3))) = ?t"
      by auto
    let ?it' = "json_items ! (a - ?n3)"
    from items r have "heap w' ! (?n3 + (a - ?n3)) = OItem (item_of ?it')" by blast
    with r len have da: "deref a w' = Some (OItem (item_of ?it'))"
      by (simp add: deref_iff)
    from r have mem: "?it' \<in> set json_items" by simp
    from a gi have ma: "map_of (g_items gr) (ji_name it) = Some a" by simp
    show "\<exists>g gr a it'.
          map_of (b_groups ?b2) ?t = Some g
          \<and> deref g w' = Some (OGroup gr)
          \<and> map_of (g_items gr) (ji_name it) = Some a
          \<and> it' \<in> set json_items \<and> deref a w' = Some (OItem (item_of it'))
          \<and> ji_name it' = ji_name it \<and> jg_title (ji_group it') = ?t"
      by (intro exI conjI) (rule m, rule gr, rule ma, rule mem, rule da, rule nm, rule tt)
  qed
  have c_last: "\<forall>j < length json_items.
          (\<forall>k. j < k \<longrightarrow> k < length json_items \<longrightarrow>
             \<not> (ji_name (json_items ! k) = ji_name (json_items ! j)
                \<and> jg_title (ji_group (json_items ! k)) = jg_title (ji_group (json_items ! j)))) \<longrightarrow>
          (\<exists>g gr.
             map_of (b_groups ?b2) (jg_title (ji_group (json_items ! j))) = Some g
             \<and> deref g w' = Some (OGroup gr)
             \<and> map_of (g_items gr) (ji_name (json_items ! j))
                 = Some (?self + 1 + length json_columns + length json_groups + j))"
  proof (intro allI impI)
    fix j
    assume j: "j < length json_items"
      and last: "\<forall>k. j < k \<longrightarrow> k < length json_items \<longrightarrow>
             \<not> (ji_name (json_items ! k) = ji_name (json_items ! j)
                \<and> jg_title (ji_group (json_items ! k)) = jg_title (ji_group (json_items ! j)))"
    let ?it = "json_items ! j"
    let ?t = "jg_title (ji_group ?it)"
    from j have mem: "?it \<in> set json_items" by simp
    with its keys_g obtain g where m: "map_of (b_groups ?b2) ?t = Some g"
      by (cases "map_of (b_groups ?b2) ?t") (auto simp: map_of_eq_None_iff)
    from group_at [OF m] obtain gr where gr: "deref g w' = Some (OGroup gr)"
      and gi: "g_items gr = items_after ?t ?n3 json_items []" by blast
    have split: "json_items = take j json_items @ ?it # drop (Suc j) json_items"
      using j by (rule id_take_nth_drop)
    have post: "\<forall>it' \<in> set (drop (Suc j) json_items).
        \<not> (ji_name it' = ji_name ?it \<and> jg_title (ji_group it') = ?t)"
    proof
      fix it' assume "it' \<in> set (drop (Suc j) json_items)"
      then obtain i where i: "i < length json_items - Suc j"
        and it': "it' = json_items ! (Suc j + i)"
        by (auto simp: in_set_conv_nth)
      from i have "j < Suc j + i" "Suc j + i < length json_items" by simp_all
      with last it' show "\<not> (ji_name it' = ji_name ?it \<and> jg_title (ji_group it') = ?t)"
        by blast
    qed
    have "map_of (items_after ?t ?n3 (take j json_items @ ?it # drop (Suc j) json_items) [])
            (ji_name ?it) = Some (?n3 + length (take j json_items))"
      by (rule map_of_items_after_last [OF post])
    with split j have "map_of (items_after ?t ?n3 json_items []) (ji_name ?it) = Some (?n3 + j)"
      by simp
    with gi have ma: "map_of (g_items gr) (ji_name ?it)
        = Some (?self + 1 + length json_columns + length json_groups + j)"
      by (simp add: add.assoc)
    show "\<exists>g gr.
             map_of (b_groups ?b2) ?t = Some g
             \<and> deref g w' = Some (OGroup gr)
             \<and> map_of (g_items gr) (ji_name ?it)
                 = Some (?self + 1 + length json_columns + length json_groups + j)"
      by (intro exI conjI) (rule m, rule gr, rule ma)
  qed
  show ?thesis
  proof (intro exI [of _ w'] exI [of _ ?b2] conjI)
    show "Board_init str ws name exists (Some json_groups) (Some json_columns)
            (Some json_items) board_id w = (Inr ?self, w')" by (rule c_run)
    show "events w' = events w" using ev by simp
    show "pending w' = pending w" using pe by simp
    show "length (heap w') = ?self + 1 + length json_columns + length json_groups
            + length json_items" using len by simp
    show "\<forall>a < ?self. heap w' ! a = heap w ! a" by (rule c_old)
    show "heap w' ! ?self = OBoard ?b2" by (rule c_board)
    show "\<forall>j < length json_columns.
          heap w' ! (?self + 1 + j) = column_of ?self (json_columns ! j)" by (rule c_cols)
    show "\<forall>j < length json_groups. \<exists>gr.
          heap w' ! (?self + 1 + length json_columns + j) = OGroup gr
          \<and> g_board gr = ?self \<and> g_title gr = jg_title (json_groups ! j)
          \<and> g_group_id gr = Some (PStr (jg_id (json_groups ! j)))" by (rule c_groups)
    show "\<forall>j < length json_items.
          heap w' ! (?self + 1 + length json_columns + length json_groups + j)
            = OItem (item_of (json_items ! j))" by (rule c_items)
    show "fst ` set (b_columns ?b2) = jc_title ` set json_columns"
      by (simp add: keys_columns_after)
    show "fst ` set (b_groups ?b2) = jg_title ` set json_groups" by (rule keys_g)
    show "distinct (map fst (b_columns ?b2))" by (simp add: distinct_columns_after)
    show "distinct (map fst (b_groups ?b2))" by (simp add: distinct_groups_after)
    show "\<forall>t \<in> jg_title ` set json_groups. \<exists>g gr.
          map_of (b_groups ?b2) t = Some g \<and> deref g w' = Some (OGroup gr) \<and> g_title gr = t
          \<and> fst ` set (g_items gr)
              = {ji_name it |it. it \<in> set json_items \<and> jg_title (ji_group it) = t}"
      by (rule c_titles)
    show "\<forall>it \<in> set json_items. \<exists>g gr a it'.
          map_of (b_groups ?b2) (jg_title (ji_group it)) = Some g
          \<and> deref g w' = Some (OGroup gr)
          \<and> map_of (g_items gr) (ji_name it) = Some a
          \<and> it' \<in> set json_items \<and> deref a w' = Some (OItem (item_of it'))
          \<and> ji_name it' = ji_name it \<and> jg_title (ji_group it') = jg_title (ji_group it)"
      by (rule c_each)
    show "\<forall>j < length json_items.
          (\<forall>k. j < k \<longrightarrow> k < length json_items \<longrightarrow>
             \<not> (ji_name (json_items ! k) = ji_name (json_items ! j)
                \<and> jg_title (ji_group (json_items ! k)) = jg_title (ji_group (json_items ! j)))) \<longrightarrow>
          (\<exists>g gr.
             map_of (b_groups ?b2) (jg_title (ji_group (json_items ! j))) = Some g
             \<and> deref g w' = Some (OGroup gr)
             \<and> map_of (g_items gr) (ji_name (json_items ! j))
                 = Some (?self + 1 + length json_columns + length json_groups + j))"
      by (rule c_last)
  qed
qed

theorem Board_init_hydrates_witness:
  "\<exists>w' b'.
      Board_init (\<lambda>v. []) 0 ''Tasks'' False (Some groups3) (Some columns2) (Some items5)
        (PStr ''77'') \<lparr>heap = [OWorkSpace ws0], events = [], pending = []\<rparr> = (Inr 1, w')
    \<and> events w' = [] \<and> pending w' = [] \<and> length (heap w') = 12
    \<and> heap w' ! 1 = OBoard b'
    \<and> fst ` set (b_columns b') = {''Status'', ''Date''}
    \<and> fst ` set (b_groups b') = {''Todo'', ''Doing'', ''Done''}
    \<and> heap w' ! 8 = OItem (item_of (items5 ! 1))
    \<and> (\<exists>g gr. map_of (b_groups b') ''Todo'' = Some g \<and> deref g w' = Some (OGroup gr)
          \<and> map_of (g_items gr) ''review'' = Some 8)"
proof -
  let ?w = "\<lparr>heap = [OWorkSpace ws0], events = [], pending = []\<rparr>"
  have h: "groups3 \<noteq> []" "\<forall>c \<in> set columns2. jc_id c \<noteq> []" "\<forall>g \<in> set groups3. jg_id g \<noteq> []"
    "\<forall>it \<in> set items5. ji_id it \<noteq> [] \<and> jg_title (ji_group it) \<in> jg_title ` set groups3"
    by (simp_all add: groups3_def columns2_def items5_def)
  have sizes: "length columns2 = 2" "length groups3 = 3" "length items5 = 5"
    "jc_title ` set columns2 = {''Status'', ''Date''}"
    "jg_title ` set groups3 = {''Todo'', ''Doing'', ''Done''}"
    by (simp_all add: groups3_def columns2_def items5_def)
  have d: "distinct (map ji_name items5)"
    by (simp add: items5_def)
  have last: "\<forall>k. 1 < k \<longrightarrow> k < length items5 \<longrightarrow>
      \<not> (ji_name (items5 ! k) = ji_name (items5 ! 1)
         \<and> jg_title (ji_group (items5 ! k)) = jg_title (ji_group (items5 ! 1)))"
  proof (intro allI impI notI)
    fix k assume k: "1 < k" "k < length items5"
      and "ji_name (items5 ! k) = ji_name (items5 ! 1)
         \<and> jg_title (ji_group (items5 ! k)) = jg_title (ji_group (items5 ! 1))"
    with sizes(3) have same: "map ji_name items5 ! k = map ji_name items5 ! 1" by simp
    from k sizes(3) have "k < length (map ji_name items5)" "1 < length (map ji_name items5)"
      by simp_all
    from nth_eq_iff_index_eq [OF d this] same have "k = 1" by blast
    with k show False by simp
  qed
  have entry: "ji_name (items5 ! Suc 0) = ''review''"
    "jg_title (ji_group (items5 ! Suc 0)) = ''Todo''"
    by (simp_all add: items5_def)
  from Board_init_hydrates [OF h, of "\<lambda>v. []" 0 "''Tasks''" False "PStr ''77''" ?w]
  show ?thesis
    apply (elim exE conjE)
    subgoal premises p for w' b'
      apply (rule exI [of _ w'], rule exI [of _ b'])
      using p(1-4,6,10,11) p(9) [rule_format, of 1] p(16) [THEN spec [where x = 1], THEN mp, THEN mp, OF _ last]
      apply (simp add: sizes entry)
      done
    done
qed

text \<open>
  C5, the part that fails. \<^verbatim>\<open>Group.add_item\<close> (line 636) stores an item under its name:
  of two items named \<^verbatim>\<open>write\<close> in the group \<^verbatim>\<open>Todo\<close> the second takes the place of the
  first, and the item 11, at address 3, is in no mapping. The three other runs show what
  the conditions of the statement above keep out. With an empty list of groups
  \<^verbatim>\<open>if json_groups\<close> (line 287) is false: nothing is hydrated, a board is created
  remotely and its \<^verbatim>\<open>columns\<close> stay empty. An item that names a group absent from the
  payload ends \<^verbatim>\<open>set_items\<close> with KeyError (line 398). An item with an empty id takes the
  creation path of \<^verbatim>\<open>Item.__init__\<close>, which raises AttributeError.
\<close>

theorem hydration_overwrites_namesake:
  "hydrate [todo] [] [todo_item ''11'' ''write'', todo_item ''12'' ''write''] workspace_world =
     (Inr 1,
      \<lparr>heap = [OWorkSpace ws0,
               OBoard \<lparr>b_work_space = 0, b_name = ''Tasks'', b_columns = [],
                       b_groups = [(''Todo'', 2)], b_board_id = Some (PStr ''77''),
                       b_status_column_id = None, b_execution_dict = None,
                       b_check_rate = None\<rparr>,
               OGroup \<lparr>g_board = 1, g_title = ''Todo'', g_items = [(''write'', 4)],
                       g_group_id = Some (PStr ''g1'')\<rparr>,
               OItem (item_of (todo_item ''11'' ''write'')),
               OItem (item_of (todo_item ''12'' ''write''))],
       events = [], pending = []\<rparr>)
   \<and> 3 \<notin> snd ` set [(''write'', 4 :: nat)]
   \<and> fst (hydrate [] columns2 []
         (workspace_world\<lparr>pending := [created_board ''88'', no_groups ''88'']\<rparr>)) = Inr 1
   \<and> heap (snd (hydrate [] columns2 []
         (workspace_world\<lparr>pending := [created_board ''88'', no_groups ''88'']\<rparr>))) ! 1 =
       OBoard \<lparr>b_work_space = 0, b_name = ''Tasks'', b_columns = [], b_groups = [],
               b_board_id = Some (PStr ''88''), b_status_column_id = None,
               b_execution_dict = None, b_check_rate = None\<rparr>
   \<and> fst (hydrate [todo] []
         [\<lparr>ji_id = ''11'', ji_name = ''write'',
           ji_group = \<lparr>jg_id = ''g9'', jg_title = ''Other''\<rparr>, ji_column_values = []\<rparr>]
         workspace_world) = Inl KeyError
   \<and> fst (hydrate [todo] [] [todo_item [] ''write''] workspace_world) = Inl AttributeError"
  by code_simp

subsection \<open>The back-reference of a hydrated item\<close>

text \<open>
  C9. The claim fails on the code for every item hydrated by \<^verbatim>\<open>Board.set_items\<close>: the
  \<^verbatim>\<open>group\<close> of the item is the title of its group, a string, although the group holds the
  item in its \<^verbatim>\<open>items\<close>; \<^verbatim>\<open>self.group.board\<close> then raises AttributeError, here in
  \<^verbatim>\<open>set_rating\<close>. \<^verbatim>\<open>Group.set_items\<close> (line 604) gives \<^verbatim>\<open>Item\<close> the group instance itself.
\<close>

theorem hydrated_item_group_is_title:
  "Board_init (\<lambda>v. []) 0 ''Tasks'' False
     (Some [\<lparr>jg_id = ''g1'', jg_title = ''Todo''\<rparr>])
     (Some [\<lparr>jc_id = ''rating'', jc_title = ''Rating'', jc_type = ''rating'', jc_description = []\<rparr>])
     (Some [\<lparr>ji_id = ''11'', ji_name = ''write'', ji_group = \<lparr>jg_id = ''g1'', jg_title = ''Todo''\<rparr>,
             ji_column_values = []\<rparr>])
     (PStr ''77'') \<lparr>heap = [OWorkSpace ws0], events = [], pending = []\<rparr>
   = (Inr 1,
      \<lparr>heap = [OWorkSpace ws0,
               OBoard \<lparr>b_work_space = 0, b_name = ''Tasks'', b_columns = [(''Rating'', 2)],
                       b_groups = [(''Todo'', 3)], b_board_id = Some (PStr ''77''),
                       b_status_column_id = None, b_execution_dict = None, b_check_rate = None\<rparr>,
               OColumn \<lparr>c_board = 1, c_title = ''Rating'', c_description = [],
                        c_column_type = ''rating'', c_column_id = Some (PStr ''rating'')\<rparr>,
               OGroup \<lparr>g_board = 1, g_title = ''Todo'', g_items = [(''write'', 4)],
                       g_group_id = Some (PStr ''g1'')\<rparr>,
               OItem \<lparr>i_group = PStr ''Todo'', i_item_id = PStr ''11'', i_name = ''write'',
                      i_columns_values = []\<rparr>],
       events = [], pending = []\<rparr>)
   \<and> fst (set_rating 4 ''Rating'' ''3''
        (snd (Board_init (\<lambda>v. []) 0 ''Tasks'' False
           (Some [\<lparr>jg_id = ''g1'', jg_title = ''Todo''\<rparr>])
           (Some [\<lparr>jc_id = ''rating'', jc_title = ''Rating'', jc_type = ''rating'', jc_description = []\<rparr>])
           (Some [\<lparr>ji_id = ''11'', ji_name = ''write'', ji_group = \<lparr>jg_id = ''g1'', jg_title = ''Todo''\<rparr>,
                   ji_column_values = []\<rparr>])
           (PStr ''77'') \<lparr>heap = [OWorkSpace ws0], events = [], pending = []\<rparr>)))
     = Inl AttributeError"
  by code_simp

section \<open>Properties of the input board\<close>

lemma post_request_answered:
  assumes "get_workspace self w = (Inr ws, w)"
    and "pending w = response # rest"
    and "py_contains ''errors'' response = Inr False"
  shows "post_request self query w =
     (Inr (case py_getitem response ''data'' of Inr data \<Rightarrow> data | Inl e \<Rightarrow> PNone),
      w\<lparr>events := events w @ post_events (ws_print_api_protocol ws) query response,
         pending := rest\<rparr>)"
  by (simp add: post_request_no_errors [OF assms] post_events_def)



lemma get_workspace_at: "deref r w = Some (OWorkSpace ws) \<Longrightarrow> get_workspace r w = (Inr ws, w)"
  by (simp add: get_workspace_def)







subsection \<open>The handler unit\<close>

lemma get_analyzer_at: "deref r w = Some (OAnalyzer a) \<Longrightarrow> get_analyzer r w = (Inr a, w)"
  by (simp add: get_analyzer_def)

lemma Analyzer_manager_raises:
  assumes "deref self w = Some (OAnalyzer a)"
    and "call (a_function a) (a_inputs a) w = (Inl e, w1)"
  shows "Analyzer_manager call self w = (Inl e, w1)"
  using assms by (simp add: Analyzer_manager_def bind_def get_analyzer_at)

lemma Analyzer_manager_returns:
  assumes "deref self w = Some (OAnalyzer a)"
    and "call (a_function a) (a_inputs a) w = (Inr v, w1)"
    and "deref self w1 = Some (OAnalyzer a)"
    and "deref (a_input_board a) w1 = Some (OBoard b)"
    and "b_board_id b = Some (PStr board_id)" "b_status_column_id b = Some (PStr column_id)"
    and "a_item_id a = PStr item_id"
  shows "Analyzer_manager call self w =
     (case post_request (b_work_space b) (change_status_query board_id item_id column_id ''1'') w1 of
        (Inl e, w2) \<Rightarrow> (Inl e, w2)
      | (Inr x, w2) \<Rightarrow> (Inr PNone, w2))"
  using assms
  by (simp add: Analyzer_manager_def bind_def get_analyzer_at get_board_at attr_def ret_def
      lift_def change_status_query_def split: prod.splits sum.splits)

text \<open>
  C8. \<^verbatim>\<open>Analyzer.manager\<close> first calls the bound function on the bound inputs, in
  the world it was started in. If that call raises, the manager raises the same error
  in the world the handler left: it sends nothing. If the call returns, the manager
  continues as the request executor on the mutation that sets the status column of the
  bound item to index 1, in the world the handler left; when the answer to that mutation
  carries no error indicator, the events of the mutation follow those of the handler and
  the manager returns \<^verbatim>\<open>None\<close>.
\<close>

theorem Analyzer_manager_order:
  assumes "deref self w = Some (OAnalyzer a)"
  shows "(\<forall>e w1. call (a_function a) (a_inputs a) w = (Inl e, w1) \<longrightarrow>
            Analyzer_manager call self w = (Inl e, w1))
       \<and> (\<forall>v w1 b ws board_id column_id item_id response rest.
            call (a_function a) (a_inputs a) w = (Inr v, w1) \<longrightarrow>
            deref self w1 = Some (OAnalyzer a) \<longrightarrow>
            deref (a_input_board a) w1 = Some (OBoard b) \<longrightarrow>
            b_board_id b = Some (PStr board_id) \<longrightarrow>
            b_status_column_id b = Some (PStr column_id) \<longrightarrow>
            a_item_id a = PStr item_id \<longrightarrow>
            Analyzer_manager call self w =
              (case post_request (b_work_space b)
                      (change_status_query board_id item_id column_id ''1'') w1 of
                 (Inl e, w2) \<Rightarrow> (Inl e, w2)
               | (Inr x, w2) \<Rightarrow> (Inr PNone, w2))
            \<and> (deref (b_work_space b) w1 = Some (OWorkSpace ws) \<longrightarrow>
               pending w1 = response # rest \<longrightarrow>
               py_contains ''errors'' response = Inr False \<longrightarrow>
               Analyzer_manager call self w =
                 (Inr PNone,
                  w1\<lparr>events := events w1
                        @ post_events (ws_print_api_protocol ws)
                            (change_status_query board_id item_id column_id ''1'') response,
                      pending := rest\<rparr>)))"
proof (intro conjI allI impI)
  fix e w1 assume "call (a_function a) (a_inputs a) w = (Inl e, w1)"
  with assms show "Analyzer_manager call self w = (Inl e, w1)"
    by (rule Analyzer_manager_raises)
next
  fix v w1 b ws board_id column_id item_id response rest
  assume r: "call (a_function a) (a_inputs a) w = (Inr v, w1)"
    and a1: "deref self w1 = Some (OAnalyzer a)"
    and b: "deref (a_input_board a) w1 = Some (OBoard b)"
    and ids: "b_board_id b = Some (PStr board_id)" "b_status_column_id b = Some (PStr column_id)"
      "a_item_id a = PStr item_id"
  show g: "Analyzer_manager call self w =
              (case post_request (b_work_space b)
                      (change_status_query board_id item_id column_id ''1'') w1 of
                 (Inl e, w2) \<Rightarrow> (Inl e, w2)
               | (Inr x, w2) \<Rightarrow> (Inr PNone, w2))"
    using assms r a1 b ids by (rule Analyzer_manager_returns)
  assume ws: "deref (b_work_space b) w1 = Some (OWorkSpace ws)"
    and pend: "pending w1 = response # rest" "py_contains ''errors'' response = Inr False"
  show "Analyzer_manager call self w =
                 (Inr PNone,
                  w1\<lparr>events := events w1
                        @ post_events (ws_print_api_protocol ws)
                            (change_status_query board_id item_id column_id ''1'') response,
                      pending := rest\<rparr>)"
    by (simp add: g post_request_answered [OF get_workspace_at [OF ws] pend])
qed


theorem Analyzer_manager_order_witness:
  "Analyzer_manager raising_handler 2
      \<lparr>heap = [OWorkSpace ws0, OBoard input_board0, OAnalyzer analyzer0], events = [],
       pending = [changed ''11'']\<rparr>
     = (Inl ValueError,
        \<lparr>heap = [OWorkSpace ws0, OBoard input_board0, OAnalyzer analyzer0], events = [],
         pending = [changed ''11'']\<rparr>)
   \<and> Analyzer_manager printing_handler 2
      \<lparr>heap = [OWorkSpace ws0, OBoard input_board0, OAnalyzer analyzer0], events = [],
       pending = [changed ''11'']\<rparr>
     = (Inr PNone,
        \<lparr>heap = [OWorkSpace ws0, OBoard input_board0, OAnalyzer analyzer0],
         events = [Print [PStr ''hello''],
                   Send (change_status_query ''77'' ''11'' ''status'' ''1'')],
         pending = []\<rparr>)"
proof -
  let ?w = "\<lparr>heap = [OWorkSpace ws0, OBoard input_board0, OAnalyzer analyzer0], events = [],
             pending = [changed ''11'']\<rparr>"
  let ?w1 = "\<lparr>heap = [OWorkSpace ws0, OBoard input_board0, OAnalyzer analyzer0],
              events = [Print [PStr ''hello'']], pending = [changed ''11'']\<rparr>"
  have self: "deref 2 ?w = Some (OAnalyzer analyzer0)"
    by (simp add: deref_iff)
  have raised: "raising_handler (a_function analyzer0) (a_inputs analyzer0) ?w = (Inl ValueError, ?w)"
    by (simp add: raising_handler_def raise_def)
  have returned: "printing_handler (a_function analyzer0) (a_inputs analyzer0) ?w = (Inr PNone, ?w1)"
    by (simp add: printing_handler_def analyzer0_def py_print_def emit_def bind_def ret_def)
  have self1: "deref 2 ?w1 = Some (OAnalyzer analyzer0)"
    by (simp add: deref_iff)
  have board: "deref (a_input_board analyzer0) ?w1 = Some (OBoard input_board0)"
    by (simp add: deref_iff analyzer0_def)
  have ids: "b_board_id input_board0 = Some (PStr ''77'')"
    "b_status_column_id input_board0 = Some (PStr ''status'')"
    "a_item_id analyzer0 = PStr ''11''"
    by (simp_all add: input_board0_def analyzer0_def)
  have ws: "deref (b_work_space input_board0) ?w1 = Some (OWorkSpace ws0)"
    by (simp add: deref_iff input_board0_def)
  have pend: "pending ?w1 = changed ''11'' # []" by simp
  have noerr: "py_contains ''errors'' (changed ''11'') = Inr False" by code_simp
  have evs: "post_events False (change_status_query ''77'' ''11'' ''status'' ''1'') (changed ''11'')
      = [Send (change_status_query ''77'' ''11'' ''status'' ''1'')]"
    by code_simp
  note order = Analyzer_manager_order [OF self]
  from order [where call = raising_handler, THEN conjunct1, rule_format, OF raised]
    order [where call = printing_handler, THEN conjunct2, rule_format,
      OF returned self1 board ids, THEN conjunct2, rule_format, OF ws pend noerr]
  show ?thesis
    by (simp add: ws0_print evs)
qed

section \<open>Properties of the creation of an item\<close>

lemma columns_values_json_omits:
  "columns_values_json grp (filter (\<lambda>e. str_or_dict (snd e)) columns_values) acc w
     = columns_values_json grp columns_values acc w"
  by (induction grp columns_values acc arbitrary: w rule: columns_values_json.induct)
     (simp_all add: bind_def split: prod.splits sum.splits)

lemma Item_init_omits:
  "Item_init grp name item_id json_columns_values
      (filter (\<lambda>e. str_or_dict (snd e)) columns_values)
     = Item_init grp name item_id json_columns_values columns_values"
proof -
  have "columns_values_json grp (filter (\<lambda>e. str_or_dict (snd e)) columns_values) ''{''
      = columns_values_json grp columns_values ''{''"
    by (rule ext) (rule columns_values_json_omits)
  then show ?thesis
    unfolding Item_init_def by (simp cong del: if_weak_cong)
qed

lemma column_id_of_at:
  assumes "deref gr w = Some (OGroup g)" and "deref (g_board g) w = Some (OBoard b)"
    and "map_of (b_columns b) column_title = Some c" and "deref c w = Some (OColumn col)"
    and "c_column_id col = Some v"
  shows "column_id_of (PObj gr) column_title w = (Inr v, w)"
  using assms
  by (simp add: column_id_of_def bind_def get_group_at get_board_at get_column_at attr_def ret_def)

lemma join_sep:
  "es \<noteq> [] \<Longrightarrow> concat (map (\<lambda>e. e @ sep) es) = join sep es @ sep"
  by (induction sep es rule: join.induct) simp_all

lemma close_columns_values_json_entries:
  "close_columns_values_json (''{'' @ concat (map (\<lambda>e. e @ '', '') es))
     = ''{'' @ join '', '' es @ ''}''"
proof (cases es)
  case Nil
  then show ?thesis by (simp add: close_columns_values_json_def)
next
  case (Cons e es')
  then have "concat (map (\<lambda>e. e @ '', '') es) = join '', '' es @ '', ''"
    by (intro join_sep) simp
  then show ?thesis
    by (simp add: close_columns_values_json_def)
qed

lemma columns_values_json_entries:
  assumes gr: "deref gr w = Some (OGroup g)" and b: "deref (g_board g) w = Some (OBoard b)"
    and cols: "\<forall>e \<in> set columns_values. str_or_dict (snd e) \<longrightarrow>
        (\<exists>c col. map_of (b_columns b) (fst e) = Some c \<and> deref c w = Some (OColumn col)
           \<and> c_column_id col = Some (PStr (ids (fst e))))"
    and dicts: "\<forall>e \<in> set columns_values. \<forall>d. snd e = PDict d \<longrightarrow>
        json_dumps (snd e) = Inr (dumps (snd e))"
  shows "columns_values_json (PObj gr) columns_values acc w =
     (Inr (acc @ concat (map (\<lambda>e. entry_text ids dumps e @ '', '')
                           (filter (\<lambda>e. str_or_dict (snd e)) columns_values))), w)"
  using cols dicts
proof (induction columns_values arbitrary: acc)
  case Nil
  then show ?case by (simp add: ret_def)
next
  case (Cons e columns_values)
  obtain column_title v where e: "e = (column_title, v)" by (cases e)
  have IH: "\<And>acc. columns_values_json (PObj gr) columns_values acc w =
     (Inr (acc @ concat (map (\<lambda>e. entry_text ids dumps e @ '', '')
                           (filter (\<lambda>e. str_or_dict (snd e)) columns_values))), w)"
    using Cons by simp
  show ?case
  proof (cases "str_or_dict v")
    case False
    then show ?thesis
      by (cases v) (simp_all add: e IH)
  next
    case True
    with Cons.prems(1) e obtain c col where
      "map_of (b_columns b) column_title = Some c" "deref c w = Some (OColumn col)"
      "c_column_id col = Some (PStr (ids column_title))"
      by auto
    then have cid: "column_id_of (PObj gr) column_title w = (Inr (PStr (ids column_title)), w)"
      by (rule column_id_of_at [OF gr b])
    from True show ?thesis
    proof (cases v)
      case (PStr s)
      then show ?thesis
        by (simp add: e bind_def cid lift_def IH entry_text_def)
    next
      case (PDict d)
      with Cons.prems(2) e have "json_dumps (PDict d) = Inr (dumps (PDict d))"
        by simp
      with PDict show ?thesis
        by (simp add: e bind_def cid lift_def IH entry_text_def del: json_dumps.simps)
    qed simp_all
  qed
qed


lemma deref_alloc_old:
  "deref r w = Some ob \<Longrightarrow> deref r (w\<lparr>heap := heap w @ obs\<rparr>) = Some ob"
  by (simp add: deref_iff nth_append)

lemma Item_init_creates:
  assumes falsy: "\<not> py_truthy item_id"
    and gr: "deref gr w = Some (OGroup g)" and b: "deref (g_board g) w = Some (OBoard b)"
    and board_id: "b_board_id b = Some (PStr board_id)"
    and group_id: "g_group_id g = Some (PStr group_id)"
    and cols: "\<forall>e \<in> set columns_values. str_or_dict (snd e) \<longrightarrow>
        (\<exists>c col. map_of (b_columns b) (fst e) = Some c \<and> deref c w = Some (OColumn col)
           \<and> c_column_id col = Some (PStr (ids (fst e))))"
    and dicts: "\<forall>e \<in> set columns_values. \<forall>d. snd e = PDict d \<longrightarrow>
        json_dumps (snd e) = Inr (dumps (snd e))"
    and ws: "deref (b_work_space b) w = Some (OWorkSpace ws)"
    and pend: "pending w = response # rest" "py_contains ''errors'' response = Inr False"
    and data: "py_getitem response ''data'' = Inr data"
      "py_getitem data ''create_item'' = Inr cr" "py_getitem cr ''id'' = Inr new_id"
  shows "Item_init (PObj gr) name item_id json_columns_values columns_values w =
     (Inr (length (heap w)),
      w\<lparr>heap := heap w @ [new_item (PObj gr) name new_id],
        events := events w @ post_events (ws_print_api_protocol ws)
                    (create_item_query board_id group_id name (payload ids dumps columns_values))
                    response,
        pending := rest\<rparr>)"
proof -
  let ?self = "length (heap w)"
  let ?i0 = "\<lparr>i_group = PObj gr, i_item_id = item_id, i_name = name, i_columns_values = []\<rparr>"
  let ?w1 = "w\<lparr>heap := heap w @ [OItem ?i0]\<rparr>"
  let ?q = "create_item_query board_id group_id name (payload ids dumps columns_values)"
  let ?w2 = "?w1\<lparr>events := events ?w1 @ post_events (ws_print_api_protocol ws) ?q response,
                 pending := rest\<rparr>"
  have gr1: "deref gr ?w1 = Some (OGroup g)" and b1: "deref (g_board g) ?w1 = Some (OBoard b)"
    and ws1: "deref (b_work_space b) ?w1 = Some (OWorkSpace ws)"
    using gr b ws by (simp_all add: deref_alloc_old)
  have cols1: "\<forall>e \<in> set columns_values. str_or_dict (snd e) \<longrightarrow>
        (\<exists>c col. map_of (b_columns b) (fst e) = Some c \<and> deref c ?w1 = Some (OColumn col)
           \<and> c_column_id col = Some (PStr (ids (fst e))))"
    using cols by (fastforce simp: deref_alloc_old)
  have acc: "columns_values_json (PObj gr) columns_values ''{'' ?w1 =
     (Inr (''{'' @ concat (map (\<lambda>e. entry_text ids dumps e @ '', '')
                           (filter (\<lambda>e. str_or_dict (snd e)) columns_values))), ?w1)"
    by (rule columns_values_json_entries [OF gr1 b1 cols1 dicts])
  have closed: "close_columns_values_json
       (''{'' @ concat (map (\<lambda>e. entry_text ids dumps e @ '', '')
                           (filter (\<lambda>e. str_or_dict (snd e)) columns_values)))
      = payload ids dumps columns_values"
    using close_columns_values_json_entries
      [of "map (entry_text ids dumps) (filter (\<lambda>e. str_or_dict (snd e)) columns_values)"]
    by (simp add: payload_def comp_def)
  have pend1: "pending ?w1 = response # rest" using pend by simp
  have post: "post_request (b_work_space b) ?q ?w1 = (Inr data, ?w2)"
    using post_request_answered [OF get_workspace_at [OF ws1] pend1 pend(2), of ?q]
    by (simp add: data)
  have self2: "deref ?self ?w2 = Some (OItem ?i0)"
    by (simp add: deref_iff)
  have upd: "update_item ?self (\<lambda>i. i\<lparr>i_item_id := new_id\<rparr>) ?w2
      = (Inr (), ?w2\<lparr>heap := (heap ?w2)[?self := OItem (?i0\<lparr>i_item_id := new_id\<rparr>)]\<rparr>)"
    by (rule update_item_at [OF self2])
  note post' = post [unfolded create_item_query_def, simplified]
  note closed' = closed [simplified]
  note upd' = upd [unfolded create_item_query_def, simplified]
  show ?thesis
    using falsy
    by (simp add: Item_init_def alloc_def bind_def acc closed' get_group_at [OF gr1]
        get_board_at [OF b1] attr_def ret_def lift_def board_id group_id post' upd' data
        new_item_def create_item_query_def)
qed


text \<open>
  C10. The creation path of \<^verbatim>\<open>Item.__init__\<close> (\<^verbatim>\<open>item_id\<close> falsy), for a group and a
  board with string ids and an answer that carries the id of the new item. Creating
  with the pairs whose value is a string or a dict alone does what creating with all
  the pairs does. With no pair the query sent carries the payload \<^verbatim>\<open>{}\<close>. When the
  board has a column with a string id for the title of every pair that is a string or a
  dict, and every dict is serializable, the query sent carries \<open>payload\<close>: the entries
  of these pairs joined by \<^verbatim>\<open>', '\<close> between braces, a string copied between two
  escaped quotes, a dict as \<^verbatim>\<open>json.dumps\<close> gives it. The new item is stored with the
  id of the answer.
\<close>

theorem Item_init_serializes_columns_values:
  assumes "\<not> py_truthy item_id"
    and "deref gr w = Some (OGroup g)" and "deref (g_board g) w = Some (OBoard b)"
    and "b_board_id b = Some (PStr board_id)"
    and "g_group_id g = Some (PStr group_id)"
    and "deref (b_work_space b) w = Some (OWorkSpace ws)"
    and "pending w = response # rest" and "py_contains ''errors'' response = Inr False"
    and "py_getitem response ''data'' = Inr data"
    and "py_getitem data ''create_item'' = Inr cr" and "py_getitem cr ''id'' = Inr new_id"
  shows "Item_init (PObj gr) name item_id json_columns_values
            (filter (\<lambda>e. str_or_dict (snd e)) columns_values) w
           = Item_init (PObj gr) name item_id json_columns_values columns_values w
       \<and> Item_init (PObj gr) name item_id json_columns_values [] w =
           (Inr (length (heap w)),
            w\<lparr>heap := heap w @ [new_item (PObj gr) name new_id],
              events := events w @ post_events (ws_print_api_protocol ws)
                          (create_item_query board_id group_id name ''{}'') response,
              pending := rest\<rparr>)
       \<and> ((\<forall>e \<in> set columns_values. str_or_dict (snd e) \<longrightarrow>
              (\<exists>c col. map_of (b_columns b) (fst e) = Some c \<and> deref c w = Some (OColumn col)
                 \<and> c_column_id col = Some (PStr (ids (fst e))))) \<longrightarrow>
          (\<forall>e \<in> set columns_values. \<forall>d. snd e = PDict d \<longrightarrow>
              json_dumps (snd e) = Inr (dumps (snd e))) \<longrightarrow>
          Item_init (PObj gr) name item_id json_columns_values columns_values w =
           (Inr (length (heap w)),
            w\<lparr>heap := heap w @ [new_item (PObj gr) name new_id],
              events := events w @ post_events (ws_print_api_protocol ws)
                          (create_item_query board_id group_id name
                             (payload ids dumps columns_values)) response,
              pending := rest\<rparr>))"
proof (intro conjI impI)
  show "Item_init (PObj gr) name item_id json_columns_values
            (filter (\<lambda>e. str_or_dict (snd e)) columns_values) w
           = Item_init (PObj gr) name item_id json_columns_values columns_values w"
    by (simp add: Item_init_omits)
next
  have "Item_init (PObj gr) name item_id json_columns_values [] w =
           (Inr (length (heap w)),
            w\<lparr>heap := heap w @ [new_item (PObj gr) name new_id],
              events := events w @ post_events (ws_print_api_protocol ws)
                          (create_item_query board_id group_id name
                             (payload (\<lambda>t. t) (\<lambda>v. []) [])) response,
              pending := rest\<rparr>)"
    using assms(1-5) _ _ assms(6-11) by (rule Item_init_creates) simp_all
  then show "Item_init (PObj gr) name item_id json_columns_values [] w =
           (Inr (length (heap w)),
            w\<lparr>heap := heap w @ [new_item (PObj gr) name new_id],
              events := events w @ post_events (ws_print_api_protocol ws)
                          (create_item_query board_id group_id name ''{}'') response,
              pending := rest\<rparr>)"
    by (simp add: payload_def)
next
  assume "\<forall>e \<in> set columns_values. str_or_dict (snd e) \<longrightarrow>
              (\<exists>c col. map_of (b_columns b) (fst e) = Some c \<and> deref c w = Some (OColumn col)
                 \<and> c_column_id col = Some (PStr (ids (fst e))))"
    and "\<forall>e \<in> set columns_values. \<forall>d. snd e = PDict d \<longrightarrow>
              json_dumps (snd e) = Inr (dumps (snd e))"
  with assms(1-5) show "Item_init (PObj gr) name item_id json_columns_values columns_values w =
           (Inr (length (heap w)),
            w\<lparr>heap := heap w @ [new_item (PObj gr) name new_id],
              events := events w @ post_events (ws_print_api_protocol ws)
                          (create_item_query board_id group_id name
                             (payload ids dumps columns_values)) response,
              pending := rest\<rparr>)"
    using assms(6-11) by (rule Item_init_creates)
qed

theorem Item_init_serializes_columns_values_witness:
  "Item_init (PObj 3) ''new'' PNone None columns_values3 creation_world =
     (Inr 4,
      creation_world\<lparr>heap := heap creation_world @ [new_item (PObj 3) ''new'' (PStr ''99'')],
        events := [Send (create_item_query ''77'' ''g1'' ''new''
                     (''{'' @ bs @ dq @ ''status'' @ bs @ dq @ '': '' @ bs @ dq @ ''x'' @ bs @ dq
                        @ '', '' @ bs @ dq @ ''status'' @ bs @ dq @ '': {'' @ dq @ ''a'' @ dq
                        @ '': '' @ dq @ ''b'' @ dq @ ''}}''))],
        pending := []\<rparr>)
   \<and> Item_init (PObj 3) ''new'' PNone None [] creation_world =
     (Inr 4,
      creation_world\<lparr>heap := heap creation_world @ [new_item (PObj 3) ''new'' (PStr ''99'')],
        events := [Send (create_item_query ''77'' ''g1'' ''new'' ''{}'')],
        pending := []\<rparr>)"
proof -
  let ?g = "\<lparr>g_board = 1, g_title = ''Group 1'', g_items = [], g_group_id = Some (PStr ''g1'')\<rparr>"
  let ?b = "board0\<lparr>b_columns := [(''Status'', 2)], b_groups := [(''Group 1'', 3)]\<rparr>"
  let ?col = "\<lparr>c_board = 1, c_title = ''Status'', c_description = [],
               c_column_type = ''text'', c_column_id = Some (PStr ''status'')\<rparr>"
  let ?ids = "\<lambda>title :: string. ''status''"
  let ?dumps = "\<lambda>v. case json_dumps v of Inr dumped \<Rightarrow> dumped | Inl e \<Rightarrow> []"
  have falsy: "\<not> py_truthy PNone" by simp
  have gr: "deref 3 creation_world = Some (OGroup ?g)"
    by (simp add: deref_iff creation_world_def)
  have b: "deref (g_board ?g) creation_world = Some (OBoard ?b)"
    by (simp add: deref_iff creation_world_def)
  have col: "deref 2 creation_world = Some (OColumn ?col)"
    by (simp add: deref_iff creation_world_def)
  have ids: "b_board_id ?b = Some (PStr ''77'')" "g_group_id ?g = Some (PStr ''g1'')"
    by (simp_all add: board0_def)
  have ws: "deref (b_work_space ?b) creation_world = Some (OWorkSpace ws0)"
    by (simp add: deref_iff creation_world_def board0_def)
  have pend: "pending creation_world = created ''99'' # []"
    by (simp add: creation_world_def)
  have noerr: "py_contains ''errors'' (created ''99'') = Inr False" by code_simp
  have data: "py_getitem (created ''99'') ''data'' = Inr (PDict [(''create_item'', PDict [(''id'', PStr ''99'')])])"
    "py_getitem (PDict [(''create_item'', PDict [(''id'', PStr ''99'')])]) ''create_item''
       = Inr (PDict [(''id'', PStr ''99'')])"
    "py_getitem (PDict [(''id'', PStr ''99'')]) ''id'' = Inr (PStr ''99'')"
    by code_simp+
  have cols: "\<forall>e \<in> set columns_values3. str_or_dict (snd e) \<longrightarrow>
      (\<exists>c col. map_of (b_columns ?b) (fst e) = Some c \<and> deref c creation_world = Some (OColumn col)
         \<and> c_column_id col = Some (PStr (?ids (fst e))))"
    using col by (simp add: columns_values3_def)
  have dicts: "\<forall>e \<in> set columns_values3. \<forall>d. snd e = PDict d \<longrightarrow>
      json_dumps (snd e) = Inr (?dumps (snd e))"
    by (simp add: columns_values3_def)
  have serialized: "payload ?ids ?dumps columns_values3 =
      ''{'' @ bs @ dq @ ''status'' @ bs @ dq @ '': '' @ bs @ dq @ ''x'' @ bs @ dq
        @ '', '' @ bs @ dq @ ''status'' @ bs @ dq @ '': {'' @ dq @ ''a'' @ dq
        @ '': '' @ dq @ ''b'' @ dq @ ''}}''"
    by code_simp
  have evs: "\<And>q. post_events False q (created ''99'') = [Send q]"
    by (simp add: post_events_def echo_def data)
  have len: "length (heap creation_world) = 4" "events creation_world = []"
    by (simp_all add: creation_world_def)
  note t = Item_init_serializes_columns_values
    [where name = "''new''" and json_columns_values = None and columns_values = columns_values3
       and ids = ?ids and dumps = ?dumps, OF falsy gr b ids ws pend noerr data]
  from t [THEN conjunct2, THEN conjunct1]
    t [THEN conjunct2, THEN conjunct2, THEN mp, OF cols, THEN mp, OF dicts]
  show ?thesis
    by (simp add: serialized evs len ws0_print)
qed

end
